theory Spec2Isabelle
  imports Complex_Main "HOL-Library.AList"
begin

section \<open>Python strings and dictionaries\<close>

text \<open>
  Strings are lists of 8-bit characters. Case conversion is modelled on the ASCII
  letters; every other character is left as it is. A Python \<open>dict\<close> with string keys is
  an association list in insertion order with distinct keys: \<open>AList.update\<close> overwrites
  the value of a key that is present and appends a new key at the end, as assignment
  to \<open>d[k]\<close> does. Floating-point numbers are modelled as real numbers.
\<close>

type_synonym pydict = "(string \<times> string) list"

definition dict_get :: "(string \<times> 'v) list \<Rightarrow> string \<Rightarrow> 'v \<Rightarrow> 'v" where
  "dict_get d k dflt = (case map_of d k of None \<Rightarrow> dflt | Some v \<Rightarrow> v)"

definition setdefault :: "string \<Rightarrow> 'v \<Rightarrow> (string \<times> 'v) list \<Rightarrow> (string \<times> 'v) list" where
  "setdefault k v d = (case map_of d k of None \<Rightarrow> d @ [(k, v)] | Some w \<Rightarrow> d)"

definition py_lower_char :: "char \<Rightarrow> char" where
  "py_lower_char c =
     (case map_of (zip ''ABCDEFGHIJKLMNOPQRSTUVWXYZ'' ''abcdefghijklmnopqrstuvwxyz'') c of
        None \<Rightarrow> c | Some l \<Rightarrow> l)"

definition py_upper_char :: "char \<Rightarrow> char" where
  "py_upper_char c =
     (case map_of (zip ''abcdefghijklmnopqrstuvwxyz'' ''ABCDEFGHIJKLMNOPQRSTUVWXYZ'') c of
        None \<Rightarrow> c | Some u \<Rightarrow> u)"

definition py_lower :: "string \<Rightarrow> string" where
  "py_lower s = map py_lower_char s"

definition py_upper :: "string \<Rightarrow> string" where
  "py_upper s = map py_upper_char s"

definition is_lower_char :: "char \<Rightarrow> bool" where
  "is_lower_char c = (c \<in> set ''abcdefghijklmnopqrstuvwxyz'')"

definition is_upper_char :: "char \<Rightarrow> bool" where
  "is_upper_char c = (c \<in> set ''ABCDEFGHIJKLMNOPQRSTUVWXYZ'')"

definition is_digit_char :: "char \<Rightarrow> bool" where
  "is_digit_char c = (c \<in> set ''0123456789'')"

text \<open>The characters \<open>str.isspace\<close> accepts among the first 256 code points.\<close>

definition py_isspace :: "char \<Rightarrow> bool" where
  "py_isspace c = (c \<in> set [CHR 0x09, CHR 0x0A, CHR 0x0B, CHR 0x0C, CHR 0x0D,
     CHR 0x1C, CHR 0x1D, CHR 0x1E, CHR 0x1F, CHR '' '', CHR 0x85, CHR 0xA0])"

definition py_strip :: "string \<Rightarrow> string" where
  "py_strip s = rev (dropWhile py_isspace (rev (dropWhile py_isspace s)))"

fun starts_with :: "string \<Rightarrow> string \<Rightarrow> bool" where
  "starts_with [] s = True"
| "starts_with (p # ps) [] = False"
| "starts_with (p # ps) (c # cs) = (p = c \<and> starts_with ps cs)"

text \<open>\<open>py_in sub s\<close> is Python's \<open>sub in s\<close> on strings.\<close>

fun py_in :: "string \<Rightarrow> string \<Rightarrow> bool" where
  "py_in sub [] = (sub = [])"
| "py_in sub (c # cs) = (starts_with sub (c # cs) \<or> py_in sub cs)"

text \<open>\<open>str.title\<close>: a cased character is upper-cased after an uncased one and
  lower-cased after a cased one.\<close>

fun title_from :: "bool \<Rightarrow> string \<Rightarrow> string" where
  "title_from previous_is_cased [] = []"
| "title_from previous_is_cased (c # cs) =
     (if is_lower_char c then
        (if previous_is_cased then c else py_upper_char c) # title_from True cs
      else if is_upper_char c then
        (if previous_is_cased then py_lower_char c else c) # title_from True cs
      else c # title_from False cs)"

definition py_title :: "string \<Rightarrow> string" where
  "py_title s = title_from False s"

text \<open>\<open>re.sub(r'\s+', ' ', s)\<close>: every maximal run of whitespace becomes one space.\<close>

fun collapse_from :: "bool \<Rightarrow> string \<Rightarrow> string" where
  "collapse_from in_run [] = []"
| "collapse_from in_run (c # cs) =
     (if py_isspace c then
        (if in_run then collapse_from True cs else CHR '' '' # collapse_from True cs)
      else c # collapse_from False cs)"

definition collapse_spaces :: "string \<Rightarrow> string" where
  "collapse_spaces s = collapse_from False s"

text \<open>\<open>re.match(r'^\d+\s', s)\<close>: one or more digits followed by a whitespace.\<close>

definition starts_with_street_number :: "string \<Rightarrow> bool" where
  "starts_with_street_number s =
     (takeWhile is_digit_char s \<noteq> [] \<and>
      (case dropWhile is_digit_char s of [] \<Rightarrow> False | c # cs \<Rightarrow> py_isspace c))"

text \<open>\<open>s.split(',')[0]\<close>.\<close>

definition first_comma_segment :: "string \<Rightarrow> string" where
  "first_comma_segment s = takeWhile (\<lambda>c. c \<noteq> CHR '','') s"

definition digit_char :: "nat \<Rightarrow> char" where
  "digit_char d = ''0123456789'' ! d"

fun nat_digits :: "nat \<Rightarrow> string" where
  "nat_digits n =
     (if n < 10 then [digit_char n] else nat_digits (n div 10) @ [digit_char (n mod 10)])"

declare nat_digits.simps [simp del]

text \<open>\<open>str(x)\<close> for \<open>x\<close> an \<open>int\<close> or \<open>None\<close>, as an f-string formats it.\<close>

definition py_str_opt_int :: "int option \<Rightarrow> string" where
  "py_str_opt_int x =
     (case x of None \<Rightarrow> ''None''
      | Some i \<Rightarrow> if i < 0 then CHR ''-'' # nat_digits (nat (- i)) else nat_digits (nat i))"

text \<open>Truthiness of an optional number: \<open>None\<close> and zero are false.\<close>

definition truthy_num :: "real option \<Rightarrow> bool" where
  "truthy_num x = (case x of None \<Rightarrow> False | Some r \<Rightarrow> r \<noteq> 0)"

definition truthy_opt_str :: "string option \<Rightarrow> bool" where
  "truthy_opt_str x = (case x of None \<Rightarrow> False | Some s \<Rightarrow> s \<noteq> [])"

section \<open>Regular expressions of the output validator\<close>

text \<open>
  Python's \<open>$\<close> matches at the end of the string and also just before a newline that
  ends the string, so both patterns accept one trailing newline.
\<close>

definition chop_final_newline :: "string \<Rightarrow> string" where
  "chop_final_newline s = (if s \<noteq> [] \<and> last s = CHR 0x0A then butlast s else s)"

text \<open>\<open>re.match(r'^[A-Z]{2}$', s)\<close>\<close>

definition two_upper :: "string \<Rightarrow> bool" where
  "two_upper s = (length s = 2 \<and> list_all is_upper_char s)"

definition match_state_code :: "string \<Rightarrow> bool" where
  "match_state_code s = (two_upper s \<or> two_upper (chop_final_newline s))"

text \<open>\<open>re.match(r'^\d{5}(-\d{4})?$', s)\<close>\<close>

definition zip_shape :: "string \<Rightarrow> bool" where
  "zip_shape s =
     ((length s = 5 \<and> list_all is_digit_char s) \<or>
      (length s = 10 \<and> list_all is_digit_char (take 5 s) \<and> s ! 5 = CHR ''-'' \<and>
       list_all is_digit_char (drop 6 s)))"

definition match_postal_code :: "string \<Rightarrow> bool" where
  "match_postal_code s = (zip_shape s \<or> zip_shape (chop_final_newline s))"

section \<open>Data\<close>

record address_component =
  long_name :: string
  short_name :: string
  component_types :: "string list"

text \<open>What \<open>geocode_address\<close> returns on a hit.\<close>

record geocode_result =
  geo_latitude :: real
  geo_longitude :: real
  geo_formatted_address :: string
  geo_address_components :: "address_component list"

text \<open>What \<open>search_place\<close> returns on a hit, and the synthetic address-only result.\<close>

record place =
  place_name :: string
  place_formatted_address :: string
  place_latitude :: "real option"
  place_longitude :: "real option"
  place_types :: "string list"
  place_address_components :: "address_component list"

text \<open>A row of the \<open>premises\<close> table, of the \<open>states\<close> table, an occupancy type.\<close>

record premise =
  premise_id :: int
  premise_name :: string
  premise_address_line_1 :: string

record state_record =
  state_record_id :: int
  state_record_name :: string

record occupancy_type =
  occupancy_type_id :: int
  occupancy_type_name :: string

record new_record =
  new_name :: string
  new_address_line_1 :: string
  new_city :: string
  new_state :: string

text \<open>
  The formatted output row: its 33 string-valued columns in order, and the two
  evaluation entries \<open>_confidence_score\<close> and \<open>_duplicate_checked\<close>.
\<close>

record output_record =
  columns :: pydict
  meta_confidence_score :: "int option"
  meta_duplicate_checked :: bool

record duplicate_entry =
  source_name :: string
  source_address :: string
  dup_standardized_name :: string
  dup_matched_premise_id :: "int option"
  dup_confidence_score :: "int option"
  reason :: string

type_synonym error_entry = "(string \<times> string option) list"

text \<open>\<open>PremiseState\<close>, field by field.\<close>

record premise_state =
  csv_rows :: "pydict list"
  current_row_index :: nat
  current_row :: pydict
  places_result :: "place option"
  places_found :: bool
  standardized_name :: string
  standardized_address :: pydict
  latitude :: "real option"
  longitude :: "real option"
  places_type :: "string option"
  existing_premises :: "premise list"
  duplicate_found :: bool
  confidence_score :: "int option"
  matched_premise_id :: "int option"
  state_id :: "int option"
  state_code :: "string option"
  occupancy_type_options :: "occupancy_type list"
  selected_occupancy_type :: "occupancy_type option"
  output_row :: "output_record option"
  successful_rows :: "output_record list"
  error_rows :: "error_entry list"
  duplicate_log :: "duplicate_entry list"
  verification_passed :: bool
  validation_errors :: "string list"
  next_step :: string
  error_message :: "string option"

text \<open>
  The collaborators behind the tool classes (geocoding and place search, the records
  store, the two language-model scorers) and the two float conversions of Python
  (\<open>str\<close> of a float, \<open>float\<close> of a string with \<open>None\<close> for \<open>ValueError\<close>) are
  parameters of the model. So is the floating-point arithmetic of the distance check:
  \<open>float_distance a b c d\<close> is the double that Python computes for
  \<open>((a - c) ** 2 + (b - d) ** 2) ** 0.5\<close>, and nothing is assumed about how it is
  rounded. A double is modelled by the real number it denotes, so comparisons between
  doubles are exact.
\<close>

record env =
  geocode_address :: "string \<Rightarrow> string \<Rightarrow> string \<Rightarrow> geocode_result option"
  search_place :: "string \<Rightarrow> real \<Rightarrow> real \<Rightarrow> place option"
  get_state_by_code :: "string \<Rightarrow> state_record option"
  get_state_by_name :: "string \<Rightarrow> state_record option"
  query_premises_by_location :: "real \<Rightarrow> real \<Rightarrow> int option \<Rightarrow> real \<Rightarrow> premise list"
  get_occupancy_types_by_state :: "string \<Rightarrow> occupancy_type list"
  score_duplicate_confidence :: "new_record \<Rightarrow> premise \<Rightarrow> int"
  classify_occupancy_type :: "string option \<Rightarrow> string \<Rightarrow> occupancy_type list \<Rightarrow> int option"
  py_str_float :: "real \<Rightarrow> string"
  py_float :: "string \<Rightarrow> real option"
  float_distance :: "real \<Rightarrow> real \<Rightarrow> real \<Rightarrow> real \<Rightarrow> real"

text \<open>The calls a node makes to a collaborator, in order.\<close>

datatype external_call =
    Geocode string string string
  | SearchPlace string real real
  | GetStateByCode string
  | GetStateByName string
  | QueryPremisesByLocation real real "int option" real
  | GetOccupancyTypesByState string
  | ScoreDuplicateConfidence new_record premise
  | ClassifyOccupancyType "string option" string "occupancy_type list"

text \<open>The spatial query of the records store among the calls.\<close>

fun is_location_query :: "external_call \<Rightarrow> bool" where
  "is_location_query (QueryPremisesByLocation lat lng sid radius) = True"
| "is_location_query c = False"

section \<open>parse_row, next_row, error_handler, log_duplicate, write_output\<close>

definition is_name_key :: "string \<Rightarrow> bool" where
  "is_name_key key_lower =
     (list_ex (\<lambda>name. py_in name key_lower)
        [''premise_name'', ''business_name'', ''company_name'', ''facility_name'',
         ''location_name'']
      \<or> (key_lower = ''name'' \<or> key_lower = ''business''))"

definition is_address_key :: "string \<Rightarrow> bool" where
  "is_address_key key_lower =
     (list_ex (\<lambda>addr. py_in addr key_lower) [''address'', ''street'', ''location'']
      \<and> \<not> py_in ''name'' key_lower)"

definition is_city_key :: "string \<Rightarrow> bool" where
  "is_city_key key_lower =
     list_ex (\<lambda>city. py_in city key_lower) [''city'', ''municipality'', ''town'']"

text \<open>One pass of the loop over the keys of the raw row.\<close>

definition normalize_field :: "pydict \<Rightarrow> string \<times> string \<Rightarrow> pydict" where
  "normalize_field normalized_row kv =
     (let key_lower = py_strip (py_lower (fst kv)); v = py_strip (snd kv) in
      if is_name_key key_lower then AList.update ''name'' v normalized_row
      else if is_address_key key_lower then AList.update ''address'' v normalized_row
      else if is_city_key key_lower then AList.update ''city'' v normalized_row
      else if py_in ''state'' key_lower \<or> key_lower = ''st'' then
        AList.update ''state'' v normalized_row
      else if py_in ''postal'' key_lower \<or> py_in ''zip'' key_lower then
        AList.update ''postal_code'' v normalized_row
      else normalized_row)"

definition normalize_row :: "pydict \<Rightarrow> pydict" where
  "normalize_row raw_row =
     setdefault ''postal_code'' []
       (setdefault ''state'' []
         (setdefault ''city'' []
           (setdefault ''address'' []
             (setdefault ''name'' [] (foldl normalize_field [] raw_row)))))"

definition parse_row_node :: "premise_state \<Rightarrow> premise_state" where
  "parse_row_node st =
     (if current_row_index st \<ge> length (csv_rows st) then
        st\<lparr>next_step := ''write_output'', error_message := None\<rparr>
      else
        st\<lparr>current_row := normalize_row (csv_rows st ! current_row_index st),
           current_row_index := current_row_index st,
           next_step := ''places_search'',
           error_message := None\<rparr>)"

definition next_row_node :: "premise_state \<Rightarrow> premise_state" where
  "next_row_node st =
     st\<lparr>current_row_index := current_row_index st + 1,
        current_row := [],
        places_result := None,
        places_found := False,
        existing_premises := [],
        confidence_score := None,
        matched_premise_id := None,
        next_step := ''parse_row'',
        error_message := None\<rparr>"

definition error_entry_of :: "pydict \<Rightarrow> string option \<Rightarrow> error_entry" where
  "error_entry_of row error_message' =
     AList.update ''error_reason'' error_message' (map (\<lambda>(k, v). (k, Some v)) row)"

definition error_handler_node :: "premise_state \<Rightarrow> premise_state" where
  "error_handler_node st =
     st\<lparr>error_rows := error_rows st @ [error_entry_of (current_row st) (error_message st)],
        next_step := ''next_row'',
        error_message := None\<rparr>"

definition log_duplicate_node :: "premise_state \<Rightarrow> premise_state" where
  "log_duplicate_node st =
     st\<lparr>duplicate_log := duplicate_log st @
          [\<lparr>source_name = dict_get (current_row st) ''name'' [],
            source_address = dict_get (current_row st) ''address'' [],
            dup_standardized_name = standardized_name st,
            dup_matched_premise_id = matched_premise_id st,
            dup_confidence_score = confidence_score st,
            reason = ''High confidence match (score: '' @
                     py_str_opt_int (confidence_score st) @ '')''\<rparr>],
        next_step := ''next_row'',
        error_message := None\<rparr>"

text \<open>\<open>write_output_node\<close> writes the three accumulators to their files and changes
  only the control fields.\<close>

definition write_output_node :: "premise_state \<Rightarrow> premise_state" where
  "write_output_node st = st\<lparr>next_step := ''END'', error_message := None\<rparr>"

section \<open>places_search\<close>

definition VALID_US_STATE_CODES :: "string list" where
  "VALID_US_STATE_CODES =
     [''AL'', ''AK'', ''AZ'', ''AR'', ''CA'', ''CO'', ''CT'', ''DE'', ''FL'', ''GA'',
      ''HI'', ''ID'', ''IL'', ''IN'', ''IA'', ''KS'', ''KY'', ''LA'', ''ME'', ''MD'',
      ''MA'', ''MI'', ''MN'', ''MS'', ''MO'', ''MT'', ''NE'', ''NV'', ''NH'', ''NJ'',
      ''NM'', ''NY'', ''NC'', ''ND'', ''OH'', ''OK'', ''OR'', ''PA'', ''RI'', ''SC'',
      ''SD'', ''TN'', ''TX'', ''UT'', ''VT'', ''VA'', ''WA'', ''WV'', ''WI'', ''WY'',
      ''DC'']"

definition NON_BUSINESS_TYPES :: "string list" where
  "NON_BUSINESS_TYPES =
     [''street_address'', ''route'', ''intersection'', ''political'',
      ''country'', ''administrative_area_level_1'', ''administrative_area_level_2'',
      ''administrative_area_level_3'', ''administrative_area_level_4'',
      ''administrative_area_level_5'', ''locality'', ''sublocality'',
      ''neighborhood'', ''premise'', ''subpremise'', ''postal_code'',
      ''natural_feature'', ''airport'', ''park'', ''point_of_interest'']"

definition rejected :: "premise_state \<Rightarrow> string \<Rightarrow> premise_state" where
  "rejected st msg =
     st\<lparr>places_result := None, places_found := False, latitude := None,
        longitude := None, places_type := None, next_step := ''error_handler'',
        error_message := Some msg\<rparr>"

text \<open>The geocoded address with the user's name, tagged \<open>premise\<close>.\<close>

definition address_only :: "premise_state \<Rightarrow> string \<Rightarrow> geocode_result \<Rightarrow> premise_state" where
  "address_only st name' geocode =
     st\<lparr>places_result := Some
          \<lparr>place_name = name',
           place_formatted_address = geo_formatted_address geocode,
           place_latitude = Some (geo_latitude geocode),
           place_longitude = Some (geo_longitude geocode),
           place_types = [''premise''],
           place_address_components = geo_address_components geocode\<rparr>,
        places_found := True,
        latitude := Some (geo_latitude geocode),
        longitude := Some (geo_longitude geocode),
        places_type := Some ''premise'',
        next_step := ''standardize'',
        error_message := None\<rparr>"

text \<open>The double that the literal \<open>0.05\<close> denotes.\<close>

definition float_0_05 :: real where
  "float_0_05 = 3602879701896397 / 72057594037927936"

text \<open>The distance check: a candidate both of whose coordinates are truthy and whose
  computed distance from the geocoded point is greater than \<open>0.05\<close> is replaced by
  \<open>None\<close>.\<close>

definition nearby_result :: "env \<Rightarrow> place option \<Rightarrow> geocode_result \<Rightarrow> place option" where
  "nearby_result e result geocode =
     (case result of
        None \<Rightarrow> None
      | Some r \<Rightarrow>
          (case (place_latitude r, place_longitude r) of
             (Some places_lat, Some places_lng) \<Rightarrow>
               if places_lat \<noteq> 0 \<and> places_lng \<noteq> 0 \<and>
                  float_distance e places_lat places_lng
                    (geo_latitude geocode) (geo_longitude geocode) > float_0_05
               then None else Some r
           | _ \<Rightarrow> Some r))"

text \<open>The free-text query of the place search.\<close>

definition search_query :: "string \<Rightarrow> string \<Rightarrow> string \<Rightarrow> string \<Rightarrow> string" where
  "search_query name' address city state_code' =
     (if name' \<noteq> [] then name' @ '', '' @ address @ '', '' @ city @ '', '' @ state_code'
      else address @ '', '' @ city @ '', '' @ state_code')"

definition places_search_node :: "env \<Rightarrow> premise_state \<Rightarrow> premise_state \<times> external_call list" where
  "places_search_node e st =
     (let address = dict_get (current_row st) ''address'' [];
          city = dict_get (current_row st) ''city'' [];
          state_code' = py_upper (dict_get (current_row st) ''state'' [])
      in
      if address = [] \<or> city = [] \<or> state_code' = [] then
        (rejected st ''Incomplete address information'', [])
      else if state_code' \<notin> set VALID_US_STATE_CODES then
        (rejected st (''Invalid US state code: '' @ state_code'), [])
      else
        (case geocode_address e address city state_code' of
           None \<Rightarrow>
             (rejected st (''Address not found: '' @ address @ '', '' @ city @ '', '' @ state_code'),
              [Geocode address city state_code'])
         | Some geocode \<Rightarrow>
             (let name' = dict_get (current_row st) ''name'' [];
                  query = search_query name' address city state_code';
                  calls = [Geocode address city state_code',
                           SearchPlace query (geo_latitude geocode) (geo_longitude geocode)]
              in
              case nearby_result e
                     (search_place e query (geo_latitude geocode) (geo_longitude geocode))
                     geocode of
                Some result \<Rightarrow>
                  if place_types result \<noteq> [] \<and>
                     list_all (\<lambda>t. t \<in> set NON_BUSINESS_TYPES) (place_types result)
                  then (address_only st name' geocode, calls)
                  else
                    (st\<lparr>places_result := Some result,
                        places_found := True,
                        latitude := Some (geo_latitude geocode),
                        longitude := Some (geo_longitude geocode),
                        places_type := Some (if place_types result \<noteq> [] then hd (place_types result)
                                             else ''establishment''),
                        next_step := ''standardize'',
                        error_message := None\<rparr>, calls)
              | None \<Rightarrow> (address_only st name' geocode, calls))))"

section \<open>standardize\<close>

definition parse_component :: "pydict \<Rightarrow> address_component \<Rightarrow> pydict" where
  "parse_component parsed component =
     (let types = component_types component in
      if ''street_number'' \<in> set types then
        AList.update ''street_number'' (long_name component) parsed
      else if ''route'' \<in> set types then AList.update ''route'' (long_name component) parsed
      else if ''locality'' \<in> set types then AList.update ''city'' (long_name component) parsed
      else if ''administrative_area_level_1'' \<in> set types then
        AList.update ''state_code'' (short_name component)
          (AList.update ''state'' (long_name component) parsed)
      else if ''postal_code'' \<in> set types then
        AList.update ''postal_code'' (long_name component) parsed
      else parsed)"

definition parse_address_components :: "address_component list \<Rightarrow> pydict" where
  "parse_address_components address_components =
     (let parsed = foldl parse_component [] address_components;
          street_num = dict_get parsed ''street_number'' [];
          route = dict_get parsed ''route'' []
      in AList.update ''address_line_1''
           (if street_num \<noteq> [] \<and> route \<noteq> [] then street_num @ '' '' @ route
            else if route \<noteq> [] then route else [])
           parsed)"

text \<open>The branch taken when identity resolution supplied a result.\<close>

definition standardize_from_places :: "premise_state \<Rightarrow> place \<Rightarrow> premise_state" where
  "standardize_from_places st pr =
     (let places_name = py_strip (place_name pr);
          original_name = py_strip (dict_get (current_row st) ''name'' []);
          chosen =
            (if places_name \<noteq> [] \<and> starts_with_street_number places_name then
               (if original_name \<noteq> [] then py_title original_name else places_name)
             else (if places_name \<noteq> [] then places_name else py_title original_name));
          parsed0 = parse_address_components (place_address_components pr);
          formatted_addr = place_formatted_address pr;
          parsed_address =
            (if dict_get parsed0 ''address_line_1'' [] = [] then
               AList.update ''address_line_1''
                 (if formatted_addr \<noteq> [] then first_comma_segment formatted_addr else [])
                 parsed0
             else parsed0)
      in
      st\<lparr>standardized_name := collapse_spaces chosen,
         standardized_address :=
           [(''address_line_1'', dict_get parsed_address ''address_line_1''
                                  (dict_get (current_row st) ''address'' [])),
            (''city'', dict_get parsed_address ''city'' (dict_get (current_row st) ''city'' [])),
            (''state'', dict_get parsed_address ''state'' (dict_get (current_row st) ''state'' [])),
            (''state_code'', dict_get parsed_address ''state_code''
                              (dict_get (current_row st) ''state'' [])),
            (''postal_code'', dict_get parsed_address ''postal_code''
                               (dict_get (current_row st) ''postal_code'' []))],
         next_step := ''database_query'',
         error_message := None\<rparr>)"

text \<open>The branch taken without a result: title-case the user's name and pass the
  address fields through.\<close>

definition standardize_from_input :: "premise_state \<Rightarrow> premise_state" where
  "standardize_from_input st =
     st\<lparr>standardized_name := collapse_spaces (py_title (dict_get (current_row st) ''name'' [])),
        standardized_address :=
          [(''address_line_1'', dict_get (current_row st) ''address'' []),
           (''city'', dict_get (current_row st) ''city'' []),
           (''state'', dict_get (current_row st) ''state'' []),
           (''state_code'', dict_get (current_row st) ''state'' []),
           (''postal_code'', dict_get (current_row st) ''postal_code'' [])],
        next_step := ''database_query'',
        error_message := None\<rparr>"

definition standardize_node :: "premise_state \<Rightarrow> premise_state" where
  "standardize_node st =
     (case places_result st of
        Some pr \<Rightarrow> if places_found st then standardize_from_places st pr
                   else standardize_from_input st
      | None \<Rightarrow> standardize_from_input st)"

section \<open>database_query, confidence_scoring, occupancy_classification\<close>

definition database_query_node :: "env \<Rightarrow> premise_state \<Rightarrow> premise_state \<times> external_call list" where
  "database_query_node e st =
     (let state_code' = dict_get (standardized_address st) ''state_code'' [];
          state_name = dict_get (standardized_address st) ''state'' [];
          by_code = (if state_code' \<noteq> [] then get_state_by_code e state_code' else None);
          state_record =
            (if state_code' \<noteq> [] \<and> by_code = None \<and> state_name \<noteq> [] then
               get_state_by_name e state_name
             else by_code);
          state_calls =
            (if state_code' \<noteq> [] then
               GetStateByCode state_code' #
                 (if by_code = None \<and> state_name \<noteq> [] then [GetStateByName state_name] else [])
             else []);
          state_id' = map_option state_record_id state_record;
          found =
            (case (latitude st, longitude st) of
               (Some lat, Some lng) \<Rightarrow>
                 if lat \<noteq> 0 \<and> lng \<noteq> 0 then
                   query_premises_by_location e lat lng state_id' 0.001
                 else []
             | _ \<Rightarrow> []);
          query_calls =
            (case (latitude st, longitude st) of
               (Some lat, Some lng) \<Rightarrow>
                 if lat \<noteq> 0 \<and> lng \<noteq> 0 then
                   [QueryPremisesByLocation lat lng state_id' 0.001]
                 else []
             | _ \<Rightarrow> [])
      in
      if found \<noteq> [] then
        (st\<lparr>existing_premises := found, duplicate_found := True, state_id := state_id',
            state_code := Some state_code', next_step := ''confidence_scoring'',
            error_message := None\<rparr>, state_calls @ query_calls)
      else
        (st\<lparr>existing_premises := [], duplicate_found := False, state_id := state_id',
            state_code := Some state_code', next_step := ''occupancy_classification'',
            error_message := None\<rparr>, state_calls @ query_calls))"

text \<open>The record compared with the closest candidate: the user's own name when
  there is one.\<close>

definition comparison_record :: "premise_state \<Rightarrow> new_record" where
  "comparison_record st =
     (let original_name = py_strip (dict_get (current_row st) ''name'' []) in
      \<lparr>new_name = (if original_name \<noteq> [] then original_name else standardized_name st),
       new_address_line_1 = dict_get (standardized_address st) ''address_line_1'' [],
       new_city = dict_get (standardized_address st) ''city'' [],
       new_state = dict_get (standardized_address st) ''state'' []\<rparr>)"

definition confidence_scoring_node :: "env \<Rightarrow> premise_state \<Rightarrow> premise_state \<times> external_call list" where
  "confidence_scoring_node e st =
     (case existing_premises st of
        [] \<Rightarrow>
          (st\<lparr>confidence_score := None, matched_premise_id := None,
              next_step := ''occupancy_classification'', error_message := None\<rparr>, [])
      | existing # others \<Rightarrow>
          (let score = score_duplicate_confidence e (comparison_record st) existing in
           (st\<lparr>confidence_score := Some score,
               matched_premise_id := Some (premise_id existing),
               next_step := (if score \<ge> 8 then ''log_duplicate''
                             else ''occupancy_classification''),
               error_message := None\<rparr>,
            [ScoreDuplicateConfidence (comparison_record st) existing])))"

definition occupancy_classification_node :: "env \<Rightarrow> premise_state \<Rightarrow> premise_state \<times> external_call list" where
  "occupancy_classification_node e st =
     (let code = (case state_code st of None \<Rightarrow> [] | Some c \<Rightarrow> c);
          occupancy_options = (if code \<noteq> [] then get_occupancy_types_by_state e code else []);
          option_calls = (if code \<noteq> [] then [GetOccupancyTypesByState code] else [])
      in
      if occupancy_options = [] then
        (st\<lparr>occupancy_type_options := [], selected_occupancy_type := None,
            next_step := ''format_output'',
            error_message := Some ''No occupancy types available for state''\<rparr>, option_calls)
      else
        (let selected_id = classify_occupancy_type e (places_type st) (standardized_name st)
                             occupancy_options;
             selected_occupancy =
               (case selected_id of
                  None \<Rightarrow> None
                | Some i \<Rightarrow>
                    if i \<noteq> 0 then find (\<lambda>opt. occupancy_type_id opt = i) occupancy_options
                    else None)
         in
         (st\<lparr>occupancy_type_options := occupancy_options,
             selected_occupancy_type := selected_occupancy,
             next_step := ''format_output'',
             error_message := None\<rparr>,
          option_calls @
            [ClassifyOccupancyType (places_type st) (standardized_name st) occupancy_options])))"

section \<open>format_output and verify_output\<close>

text \<open>\<open>str(x) if x else ''\<close> for a coordinate.\<close>

definition coordinate_text :: "env \<Rightarrow> real option \<Rightarrow> string" where
  "coordinate_text e x =
     (case x of None \<Rightarrow> [] | Some r \<Rightarrow> if r \<noteq> 0 then py_str_float e r else [])"

definition format_output_node :: "env \<Rightarrow> premise_state \<Rightarrow> premise_state" where
  "format_output_node e st =
     st\<lparr>output_row := Some
          \<lparr>columns =
             [(''Id'', []),
              (''Reference Number'', []),
              (''Unique Reference Number'', []),
              (''Building Number'', []),
              (''Premise Name'', standardized_name st),
              (''Address Line 1'', dict_get (standardized_address st) ''address_line_1'' []),
              (''Address Line 2'', []),
              (''Postal Code'', dict_get (standardized_address st) ''postal_code'' []),
              (''Status'', ''Active''),
              (''AHJ Name'', []),
              (''AHJ Geofence Name'', []),
              (''Record Type'', ''Standard''),
              (''Country'', ''USA''),
              (''State'', (case state_code st of
                            None \<Rightarrow> dict_get (standardized_address st) ''state_code'' []
                          | Some c \<Rightarrow> if c \<noteq> [] then c
                                      else dict_get (standardized_address st) ''state_code'' [])),
              (''City'', dict_get (standardized_address st) ''city'' []),
              (''System Type'', []),
              (''Internal System Type'', []),
              (''Preferred Communication Type'', ''Email''),
              (''Parent Premises'', []),
              (''Premise Occupancy'', (case selected_occupancy_type st of
                                        None \<Rightarrow> [] | Some occ \<Rightarrow> occupancy_type_name occ)),
              (''Contact Name'', []),
              (''Contact Email'', []),
              (''Contact Number'', []),
              (''Latitude'', coordinate_text e (latitude st)),
              (''Longitude'', coordinate_text e (longitude st)),
              (''Fire Station Number'', []),
              (''Has Knox Box'', ''No''),
              (''Knox Box Location'', []),
              (''Knox Box Description'', []),
              (''Enable Geofence Auto Assign'', ''No''),
              (''Country ShortName'', ''US''),
              (''Parent Reference'', []),
              (''Labels'', [])],
           meta_confidence_score = confidence_score st,
           meta_duplicate_checked = (confidence_score st \<noteq> None)\<rparr>,
        next_step := ''verify_output'',
        error_message := None\<rparr>"

definition required_fields :: "string list" where
  "required_fields =
     [''Premise Name'', ''Address Line 1'', ''City'', ''State'', ''Postal Code'', ''Status'',
      ''Latitude'', ''Longitude'', ''Premise Occupancy'']"

text \<open>\<open>not value or str(value).strip() == ''\<close>\<close>

definition is_blank :: "string option \<Rightarrow> bool" where
  "is_blank v = (case v of None \<Rightarrow> True | Some s \<Rightarrow> s = [] \<or> py_strip s = [])"

definition required_field_errors :: "pydict \<Rightarrow> string list" where
  "required_field_errors cols =
     map (\<lambda>field_name. ''Missing required field: '' @ field_name)
       (filter (\<lambda>field_name. is_blank (map_of cols field_name)) required_fields)"

text \<open>\<open>float(output_row.get(k, 0))\<close>, with \<open>None\<close> for the exception.\<close>

definition float_of_column :: "env \<Rightarrow> pydict \<Rightarrow> string \<Rightarrow> real option" where
  "float_of_column e cols k = (case map_of cols k of None \<Rightarrow> Some 0 | Some s \<Rightarrow> py_float e s)"

definition coordinate_errors :: "env \<Rightarrow> pydict \<Rightarrow> string list" where
  "coordinate_errors e cols =
     (case (float_of_column e cols ''Latitude'', float_of_column e cols ''Longitude'') of
        (Some lat, Some lng) \<Rightarrow>
          (if \<not> (- 90 \<le> lat \<and> lat \<le> 90) then
             [''Invalid latitude: '' @ py_str_float e lat @ '' (must be -90 to 90)''] else []) @
          (if \<not> (- 180 \<le> lng \<and> lng \<le> 180) then
             [''Invalid longitude: '' @ py_str_float e lng @ '' (must be -180 to 180)''] else []) @
          (if lat = 0 \<and> lng = 0 then [''Coordinates are 0,0 (likely invalid)''] else [])
      | _ \<Rightarrow> [''Latitude/Longitude must be valid numbers''])"

definition format_errors :: "pydict \<Rightarrow> string list" where
  "format_errors cols =
     (let state = dict_get cols ''State'' [];
          postal = dict_get cols ''Postal Code'' [];
          status = dict_get cols ''Status'' [];
          country = dict_get cols ''Country'' [];
          country_short = dict_get cols ''Country ShortName'' []
      in
      (if state \<noteq> [] \<and> \<not> match_state_code state then
         [''Invalid state code: '' @ state @ '' (must be 2 uppercase letters)''] else []) @
      (if postal \<noteq> [] \<and> \<not> match_postal_code postal then
         [''Invalid postal code format: '' @ postal] else []) @
      (if status \<notin> set [''Active'', ''Inactive''] then
         [''Invalid status: '' @ status @ '' (must be 'Active' or 'Inactive')''] else []) @
      (if country \<noteq> [] \<and> country \<noteq> ''USA'' then
         [''Invalid country: '' @ country @ '' (must be 'USA')''] else []) @
      (if country_short \<noteq> [] \<and> country_short \<noteq> ''US'' then
         [''Invalid country short name: '' @ country_short @ '' (must be 'US')''] else []))"

text \<open>The violations collected for an output row, in the order of the checks.\<close>

definition violations :: "env \<Rightarrow> output_record \<Rightarrow> string list" where
  "violations e out =
     required_field_errors (columns out) @ coordinate_errors e (columns out) @
     format_errors (columns out)"

text \<open>The validation rules, stated on the record rather than as a list of messages.\<close>

definition meets_rules :: "env \<Rightarrow> output_record \<Rightarrow> bool" where
  "meets_rules e out =
     (let cols = columns out in
      list_all (\<lambda>field_name. \<not> is_blank (map_of cols field_name)) required_fields
      \<and> (case (map_of cols ''Latitude'', map_of cols ''Longitude'') of
           (Some lat_text, Some lng_text) \<Rightarrow>
             (case (py_float e lat_text, py_float e lng_text) of
                (Some lat, Some lng) \<Rightarrow>
                  - 90 \<le> lat \<and> lat \<le> 90 \<and> - 180 \<le> lng \<and> lng \<le> 180 \<and>
                  \<not> (lat = 0 \<and> lng = 0)
              | _ \<Rightarrow> False)
         | _ \<Rightarrow> False)
      \<and> match_state_code (dict_get cols ''State'' [])
      \<and> match_postal_code (dict_get cols ''Postal Code'' [])
      \<and> dict_get cols ''Status'' [] \<in> set [''Active'', ''Inactive'']
      \<and> dict_get cols ''Country'' [] \<in> set [[], ''USA'']
      \<and> dict_get cols ''Country ShortName'' [] \<in> set [[], ''US''])"

fun py_join :: "string \<Rightarrow> string list \<Rightarrow> string" where
  "py_join sep [] = []"
| "py_join sep [x] = x"
| "py_join sep (x # y # ys) = x @ sep @ py_join sep (y # ys)"

text \<open>
  \<open>verify_output_node\<close> reads the keys of \<open>output_row\<close>; with \<open>output_row\<close> still
  \<open>None\<close> that raises, which is the result \<open>None\<close> here.
\<close>

definition verify_output_node :: "env \<Rightarrow> premise_state \<Rightarrow> premise_state option" where
  "verify_output_node e st =
     (case output_row st of
        None \<Rightarrow> None
      | Some out \<Rightarrow>
          (let validation_errors' = violations e out in
           if validation_errors' \<noteq> [] then
             Some (st\<lparr>verification_passed := False,
                      validation_errors := validation_errors',
                      next_step := ''error_handler'',
                      error_message := Some (''Output validation failed: '' @
                                             py_join ''; '' validation_errors')\<rparr>)
           else
             Some (st\<lparr>successful_rows := successful_rows st @ [out],
                      verification_passed := True,
                      validation_errors := [],
                      next_step := ''next_row'',
                      error_message := None\<rparr>)))"

section \<open>The graph\<close>

text \<open>
  The nodes of the compiled graph. A node's result is merged into the state, and the
  router of a conditional edge is applied to the merged state: \<open>route_after_places\<close>
  reads the \<open>next_step\<close> that \<open>places_search_node\<close> has just written, and
  \<open>route_next_row\<close> reads the \<open>current_row_index\<close> that \<open>next_row_node\<close> has just
  written. The step limit of the graph library is not part of the model.
\<close>

datatype node =
    ParseRow | PlacesSearch | Standardize | DatabaseQuery | ConfidenceScoring
  | OccupancyClassification | FormatOutput | VerifyOutput | LogDuplicate | ErrorHandler
  | NextRow | WriteOutput | END

definition route_after_parse :: "premise_state \<Rightarrow> node" where
  "route_after_parse st = (if next_step st = ''write_output'' then WriteOutput else PlacesSearch)"

definition route_after_places :: "premise_state \<Rightarrow> node" where
  "route_after_places st = (if next_step st = ''standardize'' then Standardize else ErrorHandler)"

definition route_after_database :: "premise_state \<Rightarrow> node" where
  "route_after_database st =
     (if next_step st = ''confidence_scoring'' then ConfidenceScoring
      else OccupancyClassification)"

definition route_after_confidence :: "premise_state \<Rightarrow> node" where
  "route_after_confidence st =
     (if next_step st = ''log_duplicate'' then LogDuplicate else OccupancyClassification)"

definition route_after_verify :: "premise_state \<Rightarrow> node" where
  "route_after_verify st = (if next_step st = ''next_row'' then NextRow else ErrorHandler)"

definition route_next_row :: "premise_state \<Rightarrow> node" where
  "route_next_row st =
     (let current_index = current_row_index st;
          next_index = current_index + 1
      in if next_index < length (csv_rows st) then ParseRow else WriteOutput)"

fun step :: "env \<Rightarrow> node \<times> premise_state \<Rightarrow> (node \<times> premise_state) option" where
  "step e (ParseRow, st) = (let st' = parse_row_node st in Some (route_after_parse st', st'))"
| "step e (PlacesSearch, st) =
     (let st' = fst (places_search_node e st) in Some (route_after_places st', st'))"
| "step e (Standardize, st) = Some (DatabaseQuery, standardize_node st)"
| "step e (DatabaseQuery, st) =
     (let st' = fst (database_query_node e st) in Some (route_after_database st', st'))"
| "step e (ConfidenceScoring, st) =
     (let st' = fst (confidence_scoring_node e st) in Some (route_after_confidence st', st'))"
| "step e (OccupancyClassification, st) =
     Some (FormatOutput, fst (occupancy_classification_node e st))"
| "step e (FormatOutput, st) = Some (VerifyOutput, format_output_node e st)"
| "step e (VerifyOutput, st) =
     (case verify_output_node e st of
        None \<Rightarrow> None
      | Some st' \<Rightarrow> Some (route_after_verify st', st'))"
| "step e (LogDuplicate, st) = Some (NextRow, log_duplicate_node st)"
| "step e (ErrorHandler, st) = Some (NextRow, error_handler_node st)"
| "step e (NextRow, st) = (let st' = next_row_node st in Some (route_next_row st', st'))"
| "step e (WriteOutput, st) = Some (END, write_output_node st)"
| "step e (END, st) = Some (END, st)"

text \<open>The position of a node in a row's pass, counted from the end.\<close>

fun rank :: "node \<Rightarrow> nat" where
  "rank ParseRow = 12"
| "rank PlacesSearch = 11"
| "rank Standardize = 10"
| "rank DatabaseQuery = 9"
| "rank ConfidenceScoring = 8"
| "rank OccupancyClassification = 7"
| "rank FormatOutput = 6"
| "rank VerifyOutput = 5"
| "rank LogDuplicate = 4"
| "rank ErrorHandler = 3"
| "rank NextRow = 2"
| "rank WriteOutput = 1"
| "rank END = 0"

definition remaining :: "node \<times> premise_state \<Rightarrow> nat" where
  "remaining c =
     (length (csv_rows (snd c)) - current_row_index (snd c)) * 16 + rank (fst c)"

lemma step_decreases:
  assumes "n \<noteq> END" and "step e (n, st) = Some c"
  shows "remaining c < remaining (n, st)"
  using assms
  by (cases n)
     (auto simp: remaining_def Let_def parse_row_node_def route_after_parse_def
        places_search_node_def route_after_places_def rejected_def address_only_def
        standardize_node_def standardize_from_places_def standardize_from_input_def
        database_query_node_def route_after_database_def
        confidence_scoring_node_def route_after_confidence_def
        occupancy_classification_node_def format_output_node_def
        verify_output_node_def route_after_verify_def
        log_duplicate_node_def error_handler_node_def
        next_row_node_def route_next_row_def write_output_node_def
        split: option.splits list.splits if_splits prod.splits)

text \<open>
  \<open>run\<close> is \<open>graph.invoke\<close>: it applies nodes until \<open>END\<close> and returns the final
  state, or \<open>None\<close> when a node raises.
\<close>

function run :: "env \<Rightarrow> node \<times> premise_state \<Rightarrow> premise_state option" where
  "run e (n, st) =
     (if n = END then Some st
      else case step e (n, st) of None \<Rightarrow> None | Some c \<Rightarrow> run e c)"
  by pat_completeness auto
termination
proof (relation "measure (\<lambda>(e, c). remaining c)")
  show "wf (measure (\<lambda>(e, c). remaining c))" by simp
next
  fix e :: env and n :: node and st :: premise_state and c :: "node \<times> premise_state"
  assume "n \<noteq> END" and "step e (n, st) = Some c"
  then show "((e, c), (e, n, st)) \<in> measure (\<lambda>(e, c). remaining c)"
    by (simp add: step_decreases)
qed

declare run.simps [simp del]

definition initial_state :: "pydict list \<Rightarrow> premise_state" where
  "initial_state rows =
     \<lparr>csv_rows = rows, current_row_index = 0, current_row = [],
      places_result = None, places_found = False,
      standardized_name = [], standardized_address = [],
      latitude = None, longitude = None, places_type = None,
      existing_premises = [], duplicate_found = False,
      confidence_score = None, matched_premise_id = None,
      state_id = None, state_code = None,
      occupancy_type_options = [], selected_occupancy_type = None,
      output_row = None,
      successful_rows = [], error_rows = [], duplicate_log = [],
      verification_passed = False, validation_errors = [],
      next_step = ''parse_row'', error_message = None\<rparr>"

text \<open>\<open>run_premises_processing\<close> on the rows loaded from the input file.\<close>

definition run_premises_processing :: "env \<Rightarrow> pydict list \<Rightarrow> premise_state option" where
  "run_premises_processing e rows = run e (ParseRow, initial_state rows)"

text \<open>
  \<open>row_pass\<close> applies nodes until the pass of the current row is over, that is until
  \<open>next_row\<close> (or \<open>write_output\<close>, \<open>END\<close>) is the node to run.
\<close>

function row_pass :: "env \<Rightarrow> node \<times> premise_state \<Rightarrow> (node \<times> premise_state) option" where
  "row_pass e (n, st) =
     (if n = NextRow \<or> n = WriteOutput \<or> n = END then Some (n, st)
      else case step e (n, st) of None \<Rightarrow> None | Some c \<Rightarrow> row_pass e c)"
  by pat_completeness auto
termination
proof (relation "measure (\<lambda>(e, c). remaining c)")
  show "wf (measure (\<lambda>(e, c). remaining c))" by simp
next
  fix e :: env and n :: node and st :: premise_state and c :: "node \<times> premise_state"
  assume "\<not> (n = NextRow \<or> n = WriteOutput \<or> n = END)" and "step e (n, st) = Some c"
  then show "((e, c), (e, n, st)) \<in> measure (\<lambda>(e, c). remaining c)"
    by (simp add: step_decreases)
qed

declare row_pass.simps [simp del]

text \<open>The number of entries in the three accumulators.\<close>

definition accumulated :: "premise_state \<Rightarrow> nat" where
  "accumulated st =
     length (successful_rows st) + length (error_rows st) + length (duplicate_log st)"

section \<open>Dispositions of a row\<close>

text \<open>
  The three ways a row's pass can end, as relations between the state at a node and
  the state in which \<open>next_row\<close> is reached: a validated record appended to the
  processed accumulator, an entry with a reason appended to the error accumulator, an
  entry with a score of at least 8 appended to the duplicate log.
\<close>

definition processed_row :: "env \<Rightarrow> premise_state \<Rightarrow> premise_state \<Rightarrow> bool" where
  "processed_row e st st' =
     (\<exists>out. violations e out = [] \<and>
        successful_rows st' = successful_rows st @ [out] \<and>
        error_rows st' = error_rows st \<and> duplicate_log st' = duplicate_log st)"

definition failed_row :: "pydict \<Rightarrow> premise_state \<Rightarrow> premise_state \<Rightarrow> bool" where
  "failed_row row st st' =
     (\<exists>reason. error_rows st' = error_rows st @ [error_entry_of row (Some reason)] \<and>
        successful_rows st' = successful_rows st \<and> duplicate_log st' = duplicate_log st)"

definition duplicate_row :: "premise_state \<Rightarrow> premise_state \<Rightarrow> bool" where
  "duplicate_row st st' =
     (\<exists>d score. dup_confidence_score d = Some score \<and> score \<ge> 8 \<and>
        duplicate_log st' = duplicate_log st @ [d] \<and>
        successful_rows st' = successful_rows st \<and> error_rows st' = error_rows st)"

definition same_row :: "premise_state \<Rightarrow> premise_state \<Rightarrow> bool" where
  "same_row st st' =
     (csv_rows st' = csv_rows st \<and> current_row_index st' = current_row_index st \<and>
      current_row st' = current_row st)"

definition unchanged :: "premise_state \<Rightarrow> premise_state \<Rightarrow> bool" where
  "unchanged st s =
     (same_row st s \<and> successful_rows s = successful_rows st \<and>
      error_rows s = error_rows st \<and> duplicate_log s = duplicate_log st)"

section \<open>A sample run\<close>

text \<open>A collaborator set in the style of the mock place search, and one input row.
  Its \<open>float_distance\<close> is a stand-in, the larger of the two coordinate differences; it
  is zero for two equal points, as the floating-point expression is.\<close>

definition demo_geocode :: geocode_result where
  "demo_geocode =
     \<lparr>geo_latitude = 38.9352, geo_longitude = - 121.0933,
      geo_formatted_address = ''1375 Grass Valley Highway, Auburn, CA 95603, USA'',
      geo_address_components = []\<rparr>"

definition demo_place :: place where
  "demo_place =
     \<lparr>place_name = ''Mountain Valley Homes'',
      place_formatted_address = ''1375 Grass Valley Highway, Auburn, CA 95603, USA'',
      place_latitude = Some 38.9352, place_longitude = Some (- 121.0933),
      place_types = [''real_estate_agency'', ''point_of_interest'', ''establishment''],
      place_address_components =
        [\<lparr>long_name = ''1375'', short_name = ''1375'', component_types = [''street_number'']\<rparr>,
         \<lparr>long_name = ''Grass Valley Highway'', short_name = ''Grass Valley Hwy'',
          component_types = [''route'']\<rparr>,
         \<lparr>long_name = ''Auburn'', short_name = ''Auburn'', component_types = [''locality'']\<rparr>,
         \<lparr>long_name = ''California'', short_name = ''CA'',
          component_types = [''administrative_area_level_1'']\<rparr>,
         \<lparr>long_name = ''95603'', short_name = ''95603'', component_types = [''postal_code'']\<rparr>]\<rparr>"

definition demo_premise :: premise where
  "demo_premise =
     \<lparr>premise_id = 42, premise_name = ''Mountain Valley Homes'',
      premise_address_line_1 = ''1375 Grass Valley Highway''\<rparr>"

definition demo_env :: env where
  "demo_env =
     \<lparr>geocode_address = (\<lambda>address city state.
          if py_in ''grass valley highway'' (py_lower address) then Some demo_geocode else None),
      search_place = (\<lambda>query lat lng.
          if py_in ''mountain valley homes'' (py_lower query) then Some demo_place else None),
      get_state_by_code = (\<lambda>code.
          if code = ''CA'' then Some \<lparr>state_record_id = 5, state_record_name = ''California''\<rparr>
          else None),
      get_state_by_name = (\<lambda>name. None),
      query_premises_by_location = (\<lambda>lat lng sid radius. []),
      get_occupancy_types_by_state = (\<lambda>code.
          if code = ''CA'' then
            [\<lparr>occupancy_type_id = 1, occupancy_type_name = ''Business''\<rparr>,
             \<lparr>occupancy_type_id = 2, occupancy_type_name = ''Residential''\<rparr>]
          else []),
      score_duplicate_confidence = (\<lambda>new existing. 9),
      classify_occupancy_type = (\<lambda>places_type name options. Some 1),
      py_str_float = (\<lambda>x. if x = 38.9352 then ''38.9352''
                           else if x = - 121.0933 then ''-121.0933'' else ''0.0''),
      py_float = (\<lambda>s. if s = ''38.9352'' then Some 38.9352
                       else if s = ''-121.0933'' then Some (- 121.0933)
                       else if s = ''0.0'' then Some 0 else None),
      float_distance = (\<lambda>a b c d. max \<bar>a - c\<bar> \<bar>b - d\<bar>)\<rparr>"

definition demo_row :: pydict where
  "demo_row =
     [(''name'', ''mountain valley homes''), (''address'', ''1375 Grass Valley Highway''),
      (''city'', ''Auburn''), (''state'', ''CA'')]"

text \<open>A row without an address.\<close>

definition bare_row :: pydict where
  "bare_row = [(''name'', ''Acme Corp''), (''address'', []), (''city'', []), (''state'', [])]"

text \<open>The state in which the pass of \<open>demo_row\<close> reaches \<open>next_row\<close>.\<close>

definition demo_pass_end :: premise_state where
  "demo_pass_end =
     (case row_pass demo_env (ParseRow, initial_state [demo_row]) of
        None \<Rightarrow> initial_state [demo_row]
      | Some c \<Rightarrow> snd c)"

text \<open>A row with a state code that is none, and a row at an address nobody knows.\<close>

definition fake_row :: pydict where
  "fake_row = [(''name'', ''Acme Corp''), (''address'', ''123 Fake Street''),
               (''city'', ''Nowhereville''), (''state'', ''XX'')]"

definition unknown_row :: pydict where
  "unknown_row = [(''name'', ''Acme Corp''), (''address'', ''9 Imaginary Lane''),
                  (''city'', ''Auburn''), (''state'', ''ca'')]"

text \<open>Two rows with the canonical headers: one padded with blanks, one not.\<close>

definition padded_row :: pydict where
  "padded_row =
     [(''name'', '' Acme Corp''), (''address'', ''1 Main St ''), (''city'', ''Auburn''),
      (''state'', ''CA''), (''postal_code'', ''95603'')]"

definition canonical_row :: pydict where
  "canonical_row =
     [(''name'', ''Acme Corp''), (''address'', ''1 Main St''), (''city'', ''Auburn''),
      (''state'', ''CA''), (''postal_code'', ''95603'')]"

text \<open>A row under other headers, with a column that no field takes.\<close>

definition raw_row :: pydict where
  "raw_row =
     [(''business_name'', ''Acme Corp''), (''street'', []), (''town'', ''Auburn''),
      (''ST'', ''CA''), (''phone'', ''555-0100'')]"

text \<open>A place search that answers with a candidate on the prime meridian.\<close>

definition meridian_place :: place where
  "meridian_place =
     \<lparr>place_name = ''Mountain Valley Homes'',
      place_formatted_address = ''Blackheath Ave, London SE10 8XJ, UK'',
      place_latitude = Some 51.4779, place_longitude = Some 0,
      place_types = [''real_estate_agency'', ''establishment''],
      place_address_components = []\<rparr>"

definition meridian_env :: env where
  "meridian_env = demo_env\<lparr>search_place := (\<lambda>query lat lng. Some meridian_place)\<rparr>"

text \<open>A records store with an existing premise at the location, and scorers that
  answer 9 and 6.\<close>

definition crowded_env :: env where
  "crowded_env = demo_env\<lparr>query_premises_by_location := (\<lambda>lat lng sid radius. [demo_premise])\<rparr>"

definition doubtful_env :: env where
  "doubtful_env = crowded_env\<lparr>score_duplicate_confidence := (\<lambda>new existing. 6)\<rparr>"

text \<open>The states of the sample pass at \<open>places_search\<close> and at \<open>standardize\<close>.\<close>

definition demo_parsed :: premise_state where
  "demo_parsed = parse_row_node (initial_state [demo_row])"

definition demo_resolved :: premise_state where
  "demo_resolved = fst (places_search_node demo_env demo_parsed)"

text \<open>A geocoder that answers on the equator, and the state in which that row
  reaches \<open>database_query\<close>.\<close>

definition equator_env :: env where
  "equator_env =
     crowded_env\<lparr>geocode_address :=
       (\<lambda>address city state. Some (demo_geocode\<lparr>geo_latitude := 0\<rparr>))\<rparr>"

definition equator_state :: premise_state where
  "equator_state = standardize_node (fst (places_search_node equator_env demo_parsed))"

text \<open>The states of the sample pass at \<open>database_query\<close>, and at
  \<open>confidence_scoring\<close> when the records store holds a premise at the location.\<close>

definition demo_standardized :: premise_state where
  "demo_standardized = standardize_node demo_resolved"

definition demo_candidates :: premise_state where
  "demo_candidates = fst (database_query_node crowded_env demo_standardized)"

text \<open>The final state of the run on the sample row, and its one processed record.\<close>

definition demo_final :: premise_state where
  "demo_final =
     (case run_premises_processing demo_env [demo_row] of
        None \<Rightarrow> initial_state [demo_row]
      | Some fin \<Rightarrow> fin)"

definition demo_output :: output_record where
  "demo_output =
     (case output_row demo_pass_end of
        None \<Rightarrow> \<lparr>columns = [], meta_confidence_score = None, meta_duplicate_checked = False\<rparr>
      | Some out \<Rightarrow> out)"

text \<open>The row geocoded on the equator after \<open>format_output\<close>, and its output record.\<close>

definition equator_formatted :: premise_state where
  "equator_formatted = format_output_node equator_env equator_state"

definition equator_output :: output_record where
  "equator_output =
     (case output_row equator_formatted of
        None \<Rightarrow> \<lparr>columns = [], meta_confidence_score = None, meta_duplicate_checked = False\<rparr>
      | Some out \<Rightarrow> out)"

section \<open>States of a run\<close>

text \<open>The node and state pairs that a run on the given rows goes through.\<close>

inductive reachable :: "env \<Rightarrow> pydict list \<Rightarrow> node \<times> premise_state \<Rightarrow> bool"
  for e :: env and rows :: "pydict list" where
  reach_start: "reachable e rows (ParseRow, initial_state rows)"
| reach_step: "reachable e rows c \<Longrightarrow> fst c \<noteq> END \<Longrightarrow> step e c = Some c' \<Longrightarrow> reachable e rows c'"

section \<open>The pass of one row\<close>

lemma row_pass_stop [simp]:
  "row_pass e (NextRow, st) = Some (NextRow, st)"
  by (simp add: row_pass.simps)

lemma row_pass_step:
  "n \<noteq> NextRow \<Longrightarrow> n \<noteq> WriteOutput \<Longrightarrow> n \<noteq> END \<Longrightarrow>
   row_pass e (n, st) = (case step e (n, st) of None \<Rightarrow> None | Some c \<Rightarrow> row_pass e c)"
  by (simp add: row_pass.simps)

lemma pass_error_handler:
  "row_pass e (ErrorHandler, st) = Some (NextRow, error_handler_node st)"
  by (simp add: row_pass_step)

lemma pass_log_duplicate:
  "row_pass e (LogDuplicate, st) = Some (NextRow, log_duplicate_node st)"
  by (simp add: row_pass_step)

lemma pass_verify_output:
  assumes "output_row st = Some out"
  shows "\<exists>st'. row_pass e (VerifyOutput, st) = Some (NextRow, st') \<and> same_row st st' \<and>
           (processed_row e st st' \<or> failed_row (current_row st) st st')"
  using assms
  by (auto simp: row_pass_step pass_error_handler verify_output_node_def route_after_verify_def
        Let_def error_handler_node_def same_row_def processed_row_def failed_row_def)

lemma pass_format_output:
  "\<exists>st'. row_pass e (FormatOutput, st) = Some (NextRow, st') \<and> same_row st st' \<and>
           (processed_row e st st' \<or> failed_row (current_row st) st st')"
proof -
  let ?s = "format_output_node e st"
  have "\<exists>out. output_row ?s = Some out" by (simp add: format_output_node_def)
  then obtain out where "output_row ?s = Some out" ..
  from pass_verify_output[OF this, of e] obtain st' where
    "row_pass e (VerifyOutput, ?s) = Some (NextRow, st')" "same_row ?s st'"
    "processed_row e ?s st' \<or> failed_row (current_row ?s) ?s st'" by blast
  moreover have "same_row st ?s" "successful_rows ?s = successful_rows st"
    "error_rows ?s = error_rows st" "duplicate_log ?s = duplicate_log st"
    by (simp_all add: format_output_node_def same_row_def)
  ultimately show ?thesis
    by (auto simp: row_pass_step same_row_def processed_row_def failed_row_def)
qed


lemma unchanged_then:
  assumes "unchanged st s" and "same_row s st'"
  shows "same_row st st'"
    and "processed_row e s st' \<Longrightarrow> processed_row e st st'"
    and "failed_row (current_row s) s st' \<Longrightarrow> failed_row (current_row st) st st'"
    and "duplicate_row s st' \<Longrightarrow> duplicate_row st st'"
  using assms
  by (auto simp: unchanged_def same_row_def processed_row_def failed_row_def duplicate_row_def)

lemma unchanged_format: "unchanged st (format_output_node e st)"
  by (simp add: unchanged_def same_row_def format_output_node_def)

lemma unchanged_occupancy: "unchanged st (fst (occupancy_classification_node e st))"
  by (simp add: unchanged_def same_row_def occupancy_classification_node_def Let_def)

lemma unchanged_confidence: "unchanged st (fst (confidence_scoring_node e st))"
  by (simp add: unchanged_def same_row_def confidence_scoring_node_def Let_def split: list.splits)

lemma unchanged_database: "unchanged st (fst (database_query_node e st))"
  by (simp add: unchanged_def same_row_def database_query_node_def Let_def)

lemma unchanged_standardize: "unchanged st (standardize_node st)"
  by (simp add: unchanged_def same_row_def standardize_node_def standardize_from_places_def
        standardize_from_input_def Let_def split: option.splits)

lemma unchanged_places: "unchanged st (fst (places_search_node e st))"
  by (simp add: unchanged_def same_row_def places_search_node_def rejected_def address_only_def
        Let_def split: option.splits)

lemma pass_occupancy:
  "\<exists>st'. row_pass e (OccupancyClassification, st) = Some (NextRow, st') \<and> same_row st st' \<and>
           (processed_row e st st' \<or> failed_row (current_row st) st st')"
proof -
  let ?s = "fst (occupancy_classification_node e st)"
  obtain st' where *: "row_pass e (FormatOutput, ?s) = Some (NextRow, st')" "same_row ?s st'"
    "processed_row e ?s st' \<or> failed_row (current_row ?s) ?s st'"
    using pass_format_output[of e ?s] by blast
  have "row_pass e (OccupancyClassification, st) = Some (NextRow, st')"
    using *(1) by (simp add: row_pass_step)
  then show ?thesis
    using * unchanged_then[OF unchanged_occupancy *(2)] by blast
qed

lemma pass_confidence:
  "\<exists>st'. row_pass e (ConfidenceScoring, st) = Some (NextRow, st') \<and> same_row st st' \<and>
           (processed_row e st st' \<or> failed_row (current_row st) st st' \<or> duplicate_row st st')"
proof -
  let ?s = "fst (confidence_scoring_node e st)"
  have u: "unchanged st ?s" by (rule unchanged_confidence)
  show ?thesis
  proof (cases "route_after_confidence ?s = LogDuplicate")
    case True
    then have score: "\<exists>score. confidence_score ?s = Some score \<and> score \<ge> 8"
      by (auto simp: route_after_confidence_def confidence_scoring_node_def Let_def
            split: list.splits if_splits)
    have pass: "row_pass e (ConfidenceScoring, st) = Some (NextRow, log_duplicate_node ?s)"
      using True by (simp add: row_pass_step pass_log_duplicate)
    have "same_row ?s (log_duplicate_node ?s)"
      by (simp add: same_row_def log_duplicate_node_def)
    moreover have "duplicate_row ?s (log_duplicate_node ?s)"
      using score by (auto simp: duplicate_row_def log_duplicate_node_def)
    ultimately show ?thesis
      using pass unchanged_then[OF u] by blast
  next
    case False
    then have r: "route_after_confidence ?s = OccupancyClassification"
      by (simp add: route_after_confidence_def split: if_splits)
    obtain st' where *: "row_pass e (OccupancyClassification, ?s) = Some (NextRow, st')"
      "same_row ?s st'" "processed_row e ?s st' \<or> failed_row (current_row ?s) ?s st'"
      using pass_occupancy[of e ?s] by blast
    have "row_pass e (ConfidenceScoring, st) = Some (NextRow, st')"
      using r *(1) by (simp add: row_pass_step)
    then show ?thesis
      using * unchanged_then[OF u *(2)] by blast
  qed
qed

lemma pass_database:
  "\<exists>st'. row_pass e (DatabaseQuery, st) = Some (NextRow, st') \<and> same_row st st' \<and>
           (processed_row e st st' \<or> failed_row (current_row st) st st' \<or> duplicate_row st st')"
proof -
  let ?s = "fst (database_query_node e st)"
  have u: "unchanged st ?s" by (rule unchanged_database)
  show ?thesis
  proof (cases "route_after_database ?s = ConfidenceScoring")
    case True
    obtain st' where *: "row_pass e (ConfidenceScoring, ?s) = Some (NextRow, st')"
      "same_row ?s st'"
      "processed_row e ?s st' \<or> failed_row (current_row ?s) ?s st' \<or> duplicate_row ?s st'"
      using pass_confidence[of e ?s] by blast
    have "row_pass e (DatabaseQuery, st) = Some (NextRow, st')"
      using True *(1) by (simp add: row_pass_step)
    then show ?thesis
      using * unchanged_then[OF u *(2)] by blast
  next
    case False
    then have r: "route_after_database ?s = OccupancyClassification"
      by (simp add: route_after_database_def split: if_splits)
    obtain st' where *: "row_pass e (OccupancyClassification, ?s) = Some (NextRow, st')"
      "same_row ?s st'" "processed_row e ?s st' \<or> failed_row (current_row ?s) ?s st'"
      using pass_occupancy[of e ?s] by blast
    have "row_pass e (DatabaseQuery, st) = Some (NextRow, st')"
      using r *(1) by (simp add: row_pass_step)
    then show ?thesis
      using * unchanged_then[OF u *(2)] by blast
  qed
qed

lemma pass_standardize:
  "\<exists>st'. row_pass e (Standardize, st) = Some (NextRow, st') \<and> same_row st st' \<and>
           (processed_row e st st' \<or> failed_row (current_row st) st st' \<or> duplicate_row st st')"
proof -
  let ?s = "standardize_node st"
  obtain st' where *: "row_pass e (DatabaseQuery, ?s) = Some (NextRow, st')"
    "same_row ?s st'"
    "processed_row e ?s st' \<or> failed_row (current_row ?s) ?s st' \<or> duplicate_row ?s st'"
    using pass_database[of e ?s] by blast
  have "row_pass e (Standardize, st) = Some (NextRow, st')"
    using *(1) by (simp add: row_pass_step)
  then show ?thesis
    using * unchanged_then[OF unchanged_standardize *(2)] by blast
qed

lemma places_error_has_reason:
  "route_after_places (fst (places_search_node e st)) = ErrorHandler \<Longrightarrow>
   \<exists>reason. error_message (fst (places_search_node e st)) = Some reason"
  by (auto simp: route_after_places_def places_search_node_def rejected_def address_only_def
        Let_def split: option.splits if_splits)

lemma pass_places:
  "\<exists>st'. row_pass e (PlacesSearch, st) = Some (NextRow, st') \<and> same_row st st' \<and>
           (processed_row e st st' \<or> failed_row (current_row st) st st' \<or> duplicate_row st st')"
proof -
  let ?s = "fst (places_search_node e st)"
  have u: "unchanged st ?s" by (rule unchanged_places)
  show ?thesis
  proof (cases "route_after_places ?s = Standardize")
    case True
    obtain st' where *: "row_pass e (Standardize, ?s) = Some (NextRow, st')"
      "same_row ?s st'"
      "processed_row e ?s st' \<or> failed_row (current_row ?s) ?s st' \<or> duplicate_row ?s st'"
      using pass_standardize[of e ?s] by blast
    have "row_pass e (PlacesSearch, st) = Some (NextRow, st')"
      using True *(1) by (simp add: row_pass_step)
    then show ?thesis
      using * unchanged_then[OF u *(2)] by blast
  next
    case False
    then have r: "route_after_places ?s = ErrorHandler"
      by (simp add: route_after_places_def split: if_splits)
    from places_error_has_reason[OF r] obtain reason where
      reason: "error_message ?s = Some reason" ..
    have pass: "row_pass e (PlacesSearch, st) = Some (NextRow, error_handler_node ?s)"
      using r by (simp add: row_pass_step pass_error_handler)
    have "same_row ?s (error_handler_node ?s)"
      by (simp add: same_row_def error_handler_node_def)
    moreover have "failed_row (current_row ?s) ?s (error_handler_node ?s)"
      using reason by (auto simp: failed_row_def error_handler_node_def)
    ultimately show ?thesis
      using pass unchanged_then[OF u] by blast
  qed
qed


lemma pass_parse:
  assumes "current_row_index st < length (csv_rows st)"
  shows "\<exists>st'. row_pass e (ParseRow, st) = Some (NextRow, st') \<and>
           csv_rows st' = csv_rows st \<and> current_row_index st' = current_row_index st \<and>
           current_row st' = normalize_row (csv_rows st ! current_row_index st) \<and>
           (processed_row e st st' \<or>
            failed_row (normalize_row (csv_rows st ! current_row_index st)) st st' \<or>
            duplicate_row st st')"
proof -
  let ?s = "parse_row_node st"
  have s: "route_after_parse ?s = PlacesSearch" "csv_rows ?s = csv_rows st"
    "current_row_index ?s = current_row_index st"
    "current_row ?s = normalize_row (csv_rows st ! current_row_index st)"
    "successful_rows ?s = successful_rows st" "error_rows ?s = error_rows st"
    "duplicate_log ?s = duplicate_log st"
    using assms by (simp_all add: parse_row_node_def route_after_parse_def)
  obtain st' where *: "row_pass e (PlacesSearch, ?s) = Some (NextRow, st')"
    "same_row ?s st'"
    "processed_row e ?s st' \<or> failed_row (current_row ?s) ?s st' \<or> duplicate_row ?s st'"
    using pass_places[of e ?s] by blast
  have "row_pass e (ParseRow, st) = Some (NextRow, st')"
    using s(1) *(1) by (simp add: row_pass_step)
  then show ?thesis
    using * s by (auto simp: same_row_def processed_row_def failed_row_def duplicate_row_def)
qed

lemma run_after_pass:
  "row_pass e c = Some c' \<Longrightarrow> run e c = run e c'"
proof (induction e c rule: row_pass.induct)
  case (1 e n st)
  show ?case
  proof (cases "n = NextRow \<or> n = WriteOutput \<or> n = END")
    case True
    with "1.prems" show ?thesis by (simp add: row_pass.simps)
  next
    case False
    with "1.prems" obtain c where c: "step e (n, st) = Some c" "row_pass e c = Some c'"
      by (auto simp: row_pass.simps split: option.splits)
    with False "1.IH" have "run e c = run e c'" by simp
    with False c show ?thesis by (simp add: run.simps)
  qed
qed

lemma run_next_row:
  "run e (NextRow, st) =
     (if current_row_index st + 2 < length (csv_rows st)
      then run e (ParseRow, next_row_node st)
      else Some (write_output_node (next_row_node st)))"
  by (simp add: run.simps[of e NextRow] run.simps[of e WriteOutput] run.simps[of e END]
        route_next_row_def next_row_node_def Let_def)

lemma accumulated_disposed:
  "processed_row e st st' \<or> failed_row row st st' \<or> duplicate_row st st' \<Longrightarrow>
   accumulated st' = accumulated st + 1"
  by (auto simp: accumulated_def processed_row_def failed_row_def duplicate_row_def)

text \<open>The rows that a run disposes of when it enters \<open>parse_row\<close> at index \<open>i\<close> of \<open>n\<close> rows.\<close>

lemma run_rows:
  assumes "current_row_index st < length (csv_rows st)"
    and "\<forall>out \<in> set (successful_rows st). violations e out = []"
  shows "\<exists>fin. run e (ParseRow, st) = Some fin \<and>
           accumulated fin =
             accumulated st + max 1 (length (csv_rows st) - 1 - current_row_index st) \<and>
           (\<forall>out \<in> set (successful_rows fin). violations e out = [])"
  using assms
proof (induction "length (csv_rows st) - current_row_index st" arbitrary: st rule: less_induct)
  case less
  from pass_parse[OF less.prems(1), of e] obtain st' where
    pass: "row_pass e (ParseRow, st) = Some (NextRow, st')"
    and same: "csv_rows st' = csv_rows st" "current_row_index st' = current_row_index st"
    and disp: "processed_row e st st' \<or>
               failed_row (normalize_row (csv_rows st ! current_row_index st)) st st' \<or>
               duplicate_row st st'"
    by blast
  have acc: "accumulated st' = accumulated st + 1"
    using disp by (rule accumulated_disposed)
  have valid: "\<forall>out \<in> set (successful_rows st'). violations e out = []"
    using disp less.prems(2)
    by (auto simp: processed_row_def failed_row_def duplicate_row_def)
  have run: "run e (ParseRow, st) = run e (NextRow, st')"
    using pass by (rule run_after_pass)
  show ?case
  proof (cases "current_row_index st + 2 < length (csv_rows st)")
    case True
    let ?s = "next_row_node st'"
    have s: "csv_rows ?s = csv_rows st" "current_row_index ?s = current_row_index st + 1"
      "successful_rows ?s = successful_rows st'" "accumulated ?s = accumulated st'"
      using same by (simp_all add: next_row_node_def accumulated_def)
    have "length (csv_rows ?s) - current_row_index ?s
            < length (csv_rows st) - current_row_index st"
      using True s by simp
    moreover have "current_row_index ?s < length (csv_rows ?s)" using True s by simp
    moreover have "\<forall>out \<in> set (successful_rows ?s). violations e out = []"
      using valid s by simp
    ultimately obtain fin where fin: "run e (ParseRow, ?s) = Some fin"
      "accumulated fin =
         accumulated ?s + max 1 (length (csv_rows ?s) - 1 - current_row_index ?s)"
      "\<forall>out \<in> set (successful_rows fin). violations e out = []"
      using less.hyps[of ?s] by blast
    have "run e (ParseRow, st) = Some fin"
      using run fin(1) True same by (simp add: run_next_row)
    moreover have "accumulated fin =
        accumulated st + max 1 (length (csv_rows st) - 1 - current_row_index st)"
      using fin(2) s acc True by simp
    ultimately show ?thesis using fin(3) by blast
  next
    case False
    let ?fin = "write_output_node (next_row_node st')"
    have "run e (ParseRow, st) = Some ?fin"
      using run False same by (simp add: run_next_row)
    moreover have "accumulated ?fin = accumulated st + 1"
      using acc by (simp add: write_output_node_def next_row_node_def accumulated_def)
    moreover have "successful_rows ?fin = successful_rows st'"
      by (simp add: write_output_node_def next_row_node_def)
    ultimately show ?thesis using False valid by auto
  qed
qed

lemma run_no_rows:
  "run e (ParseRow, initial_state []) =
     Some (write_output_node (parse_row_node (initial_state [])))"
  by (simp add: run.simps[of e ParseRow] run.simps[of e WriteOutput] run.simps[of e END]
        parse_row_node_def route_after_parse_def initial_state_def)

lemma demo_pass:
  "row_pass demo_env (ParseRow, initial_state [demo_row]) = Some (NextRow, demo_pass_end)"
  by code_simp

section \<open>One entry per row\<close>

lemma run_returns:
  "\<exists>fin. run_premises_processing e rows = Some fin \<and>
     accumulated fin = (if length rows \<le> 1 then length rows else length rows - 1) \<and>
     (\<forall>out \<in> set (successful_rows fin). violations e out = [])"
proof (cases rows)
  case Nil
  then have "run_premises_processing e rows =
      Some (write_output_node (parse_row_node (initial_state [])))"
    by (simp add: run_premises_processing_def run_no_rows)
  then show ?thesis
    using Nil by (simp add: accumulated_def write_output_node_def parse_row_node_def
                    initial_state_def)
next
  case (Cons r rs)
  let ?st = "initial_state rows"
  have init: "csv_rows ?st = rows" "current_row_index ?st = 0" "accumulated ?st = 0"
    "successful_rows ?st = []"
    by (simp_all add: initial_state_def accumulated_def)
  have "current_row_index ?st < length (csv_rows ?st)"
    using Cons init by simp
  moreover have "\<forall>out \<in> set (successful_rows ?st). violations e out = []"
    using init by simp
  ultimately obtain fin where "run e (ParseRow, ?st) = Some fin"
    "accumulated fin =
       accumulated ?st + max 1 (length (csv_rows ?st) - 1 - current_row_index ?st)"
    and valid: "\<forall>out \<in> set (successful_rows fin). violations e out = []"
    using run_rows[of ?st e] by blast
  then have "run_premises_processing e rows = Some fin"
    "accumulated fin = max 1 (length rows - 1)"
    using init by (simp_all add: run_premises_processing_def)
  moreover have "max 1 (length rows - 1) =
      (if length rows \<le> 1 then length rows else length rows - 1)"
    using Cons by (cases rs) auto
  ultimately show ?thesis using valid by auto
qed

text \<open>
  C1. The claim is that every input row contributes exactly one entry to exactly one of
  the three accumulators, so that their sizes add up to the number of input rows when
  \<open>write_output\<close> is reached. Every row whose pass starts does end with exactly one new
  entry (\<open>pass_parse\<close>), and every run reaches \<open>write_output\<close> and returns. But
  \<open>route_next_row\<close> adds one to an index that \<open>next_row_node\<close> has already advanced, so
  the pass of the last of two or more rows never starts: the entries number the rows
  for at most one row, and one less than the rows otherwise.
\<close>

theorem run_accumulates:
  "\<exists>fin. run_premises_processing e rows = Some fin \<and>
     accumulated fin = (if length rows \<le> 1 then length rows else length rows - 1)"
  using run_returns [of e rows] by blast

theorem run_accumulates_two_rows:
  "\<exists>fin. run_premises_processing demo_env [bare_row, demo_row] = Some fin \<and>
     accumulated fin = 1"
  using run_accumulates [of demo_env "[bare_row, demo_row]"] by simp

text \<open>The run on two rows: the second row is in none of the accumulators.\<close>

lemma two_rows_one_entry:
  "map_option (\<lambda>fin. (successful_rows fin, error_rows fin, duplicate_log fin))
     (run_premises_processing demo_env [bare_row, demo_row]) =
   Some ([],
         [[(''name'', Some ''Acme Corp''), (''address'', Some []), (''city'', Some []),
           (''state'', Some []), (''postal_code'', Some []),
           (''error_reason'', Some ''Incomplete address information'')]],
         [])"
  by code_simp

section \<open>The reset between rows\<close>

text \<open>
  C2 (as amended). \<open>next_row_node\<close> advances the row index by exactly one, sets
  \<open>next_step\<close> to \<open>parse_row\<close>, and clears the current row, the places result, the
  found flag, the candidate list, the confidence score, the matched identifier and the
  error message. It leaves the three accumulators and the input rows unchanged, and it
  also leaves unchanged the latitude, the longitude, the places type, the standardized
  name and address, the duplicate flag, the state identifier and code, the occupancy
  options and the classification result, the assembled output row and the validation
  outcome.
\<close>

theorem next_row_resets:
  "current_row_index (next_row_node st) = current_row_index st + 1
   \<and> next_step (next_row_node st) = ''parse_row''
   \<and> current_row (next_row_node st) = []
   \<and> places_result (next_row_node st) = None
   \<and> places_found (next_row_node st) = False
   \<and> existing_premises (next_row_node st) = []
   \<and> confidence_score (next_row_node st) = None
   \<and> matched_premise_id (next_row_node st) = None
   \<and> error_message (next_row_node st) = None
   \<and> csv_rows (next_row_node st) = csv_rows st
   \<and> successful_rows (next_row_node st) = successful_rows st
   \<and> error_rows (next_row_node st) = error_rows st
   \<and> duplicate_log (next_row_node st) = duplicate_log st
   \<and> latitude (next_row_node st) = latitude st
   \<and> longitude (next_row_node st) = longitude st
   \<and> places_type (next_row_node st) = places_type st
   \<and> standardized_name (next_row_node st) = standardized_name st
   \<and> standardized_address (next_row_node st) = standardized_address st
   \<and> duplicate_found (next_row_node st) = duplicate_found st
   \<and> state_id (next_row_node st) = state_id st
   \<and> state_code (next_row_node st) = state_code st
   \<and> occupancy_type_options (next_row_node st) = occupancy_type_options st
   \<and> selected_occupancy_type (next_row_node st) = selected_occupancy_type st
   \<and> output_row (next_row_node st) = output_row st
   \<and> verification_passed (next_row_node st) = verification_passed st
   \<and> validation_errors (next_row_node st) = validation_errors st"
  by (simp add: next_row_node_def)

text \<open>
  C2 (as stated) fails: after the pass of the sample row, \<open>next_row_node\<close> leaves the
  coordinates, the places type, the classification result, the output row and the
  validation outcome of that row in the state.
\<close>

theorem next_row_keeps_row_fields:
  "latitude (next_row_node demo_pass_end) = Some 38.9352
   \<and> longitude (next_row_node demo_pass_end) = Some (- 121.0933)
   \<and> places_type (next_row_node demo_pass_end) = Some ''real_estate_agency''
   \<and> selected_occupancy_type (next_row_node demo_pass_end) \<noteq> None
   \<and> output_row (next_row_node demo_pass_end) \<noteq> None
   \<and> verification_passed (next_row_node demo_pass_end) = True"
  by code_simp

section \<open>Field normalization\<close>

lemma update_fresh:
  "k \<notin> fst ` set al \<Longrightarrow> AList.update k v al = al @ [(k, v)]"
  by (induction al) auto

lemma canonical_keys:
  "py_strip (py_lower ''name'') = ''name''" "py_strip (py_lower ''address'') = ''address''"
  "py_strip (py_lower ''city'') = ''city''" "py_strip (py_lower ''state'') = ''state''"
  "py_strip (py_lower ''postal_code'') = ''postal_code''"
  "is_name_key ''name''"
  "\<not> is_name_key ''address''" "is_address_key ''address''"
  "\<not> is_name_key ''city''" "\<not> is_address_key ''city''" "is_city_key ''city''"
  "\<not> is_name_key ''state''" "\<not> is_address_key ''state''" "\<not> is_city_key ''state''"
  "py_in ''state'' ''state''"
  "\<not> is_name_key ''postal_code''" "\<not> is_address_key ''postal_code''"
  "\<not> is_city_key ''postal_code''" "\<not> py_in ''state'' ''postal_code''"
  "py_in ''postal'' ''postal_code''"
  by code_simp+

lemma normalize_canonical_field:
  assumes "k \<in> {''name'', ''address'', ''city'', ''state'', ''postal_code''}"
    and "py_strip v = v"
  shows "normalize_field acc (k, v) = AList.update k v acc"
  using assms by (auto simp: normalize_field_def Let_def canonical_keys)

lemma foldl_canonical:
  assumes "distinct (map fst row)"
    and "set (map fst row) \<subseteq> {''name'', ''address'', ''city'', ''state'', ''postal_code''}"
    and "\<forall>v \<in> snd ` set row. py_strip v = v"
    and "fst ` set acc \<inter> fst ` set row = {}"
  shows "foldl normalize_field acc row = acc @ row"
  using assms
proof (induction row arbitrary: acc)
  case Nil
  then show ?case by simp
next
  case (Cons kv row)
  obtain k v where kv: "kv = (k, v)" by (cases kv)
  have k: "k \<in> {''name'', ''address'', ''city'', ''state'', ''postal_code''}"
    and v: "py_strip v = v" and fresh: "k \<notin> fst ` set acc"
    using Cons.prems kv by auto
  have step: "normalize_field acc kv = acc @ [(k, v)]"
    using normalize_canonical_field[OF k v] update_fresh[OF fresh] kv by simp
  have "foldl normalize_field (acc @ [(k, v)]) row = (acc @ [(k, v)]) @ row"
  proof (rule Cons.IH)
    show "distinct (map fst row)" using Cons.prems(1) by simp
    show "set (map fst row) \<subseteq> {''name'', ''address'', ''city'', ''state'', ''postal_code''}"
      using Cons.prems(2) by simp
    show "\<forall>v \<in> snd ` set row. py_strip v = v" using Cons.prems(3) by simp
    show "fst ` set (acc @ [(k, v)]) \<inter> fst ` set row = {}"
      using Cons.prems(1,4) kv by auto
  qed
  then show ?case using step kv by simp
qed

lemma setdefault_present:
  "k \<in> set (map fst row) \<Longrightarrow> setdefault k v row = row"
  by (auto simp: setdefault_def map_of_eq_None_iff split: option.splits)

text \<open>
  C8 (as amended). For every row whose headers are exactly \<open>name\<close>, \<open>address\<close>, \<open>city\<close>,
  \<open>state\<close> and \<open>postal_code\<close> and whose values have no leading or trailing whitespace,
  the field-normalization step returns the same row, columns in the same order.
\<close>

theorem normalize_canonical_row:
  assumes "distinct (map fst row)"
    and "set (map fst row) = {''name'', ''address'', ''city'', ''state'', ''postal_code''}"
    and "\<forall>v \<in> snd ` set row. py_strip v = v"
  shows "normalize_row row = row"
proof -
  have "foldl normalize_field [] row = row"
    using foldl_canonical[of row "[]"] assms by simp
  then show ?thesis
    using assms(2) by (simp add: normalize_row_def setdefault_present)
qed

theorem normalize_canonical_row_witness:
  "distinct (map fst canonical_row)
   \<and> set (map fst canonical_row) = {''name'', ''address'', ''city'', ''state'', ''postal_code''}
   \<and> map py_strip (map snd canonical_row) = map snd canonical_row
   \<and> normalize_row canonical_row = canonical_row"
proof -
  have h1: "distinct (map fst canonical_row)" by code_simp
  have h2: "set (map fst canonical_row) = {''name'', ''address'', ''city'', ''state'', ''postal_code''}"
    by (simp add: canonical_row_def)
  have stripped: "map py_strip (map snd canonical_row) = map snd canonical_row"
    by code_simp
  have h3: "\<forall>v \<in> snd ` set canonical_row. py_strip v = v"
    by (simp add: canonical_row_def py_strip_def py_isspace_def)
  show ?thesis using h1 h2 stripped normalize_canonical_row [OF h1 h2 h3] by blast
qed

text \<open>
  C8 (as stated) fails: normalization strips the values, so a row with the canonical
  headers and a padded value is changed.
\<close>

theorem normalize_strips_values:
  "map fst padded_row = [''name'', ''address'', ''city'', ''state'', ''postal_code'']
   \<and> normalize_row padded_row \<noteq> padded_row
   \<and> normalize_row padded_row = canonical_row"
  by code_simp

section \<open>Identity resolution\<close>

lemma py_upper_empty [simp]: "py_upper s = [] \<longleftrightarrow> s = []"
  by (simp add: py_upper_def)

text \<open>
  C6. In \<open>places_search_node\<close>, an empty normalized address, city or state rejects the row
  with \<open>Incomplete address information\<close>; otherwise an upper-cased state code outside
  the 51 codes (the 50 states and DC) rejects it with \<open>Invalid US state code\<close>. In both
  cases the row is routed to the error handler and no collaborator has been called.
  Past those two checks the row is routed to the error handler exactly when geocoding
  misses, with \<open>Address not found\<close>.
\<close>

theorem places_search_rejects:
  "(dict_get (current_row st) ''address'' [] = [] \<or> dict_get (current_row st) ''city'' [] = []
      \<or> dict_get (current_row st) ''state'' [] = [] \<longrightarrow>
      snd (places_search_node e st) = [] \<and>
      error_message (fst (places_search_node e st)) = Some ''Incomplete address information'' \<and>
      route_after_places (fst (places_search_node e st)) = ErrorHandler)
   \<and> (dict_get (current_row st) ''address'' [] \<noteq> [] \<and> dict_get (current_row st) ''city'' [] \<noteq> []
      \<and> dict_get (current_row st) ''state'' [] \<noteq> []
      \<and> py_upper (dict_get (current_row st) ''state'' []) \<notin> set VALID_US_STATE_CODES \<longrightarrow>
      snd (places_search_node e st) = [] \<and>
      error_message (fst (places_search_node e st)) =
        Some (''Invalid US state code: '' @ py_upper (dict_get (current_row st) ''state'' [])) \<and>
      route_after_places (fst (places_search_node e st)) = ErrorHandler)
   \<and> (dict_get (current_row st) ''address'' [] \<noteq> [] \<and> dict_get (current_row st) ''city'' [] \<noteq> []
      \<and> py_upper (dict_get (current_row st) ''state'' []) \<in> set VALID_US_STATE_CODES \<longrightarrow>
      (route_after_places (fst (places_search_node e st)) = ErrorHandler \<longleftrightarrow>
         geocode_address e (dict_get (current_row st) ''address'' [])
           (dict_get (current_row st) ''city'' [])
           (py_upper (dict_get (current_row st) ''state'' [])) = None) \<and>
      (geocode_address e (dict_get (current_row st) ''address'' [])
           (dict_get (current_row st) ''city'' [])
           (py_upper (dict_get (current_row st) ''state'' [])) = None \<longrightarrow>
         error_message (fst (places_search_node e st)) =
           Some (''Address not found: '' @ dict_get (current_row st) ''address'' [] @ '', '' @
                 dict_get (current_row st) ''city'' [] @ '', '' @
                 py_upper (dict_get (current_row st) ''state'' []))))
   \<and> length VALID_US_STATE_CODES = 51 \<and> distinct VALID_US_STATE_CODES"
proof -
  have codes: "length VALID_US_STATE_CODES = 51" "distinct VALID_US_STATE_CODES"
    by code_simp+
  have "[] \<notin> set VALID_US_STATE_CODES"
    by (simp add: VALID_US_STATE_CODES_def)
  then have nonempty: "py_upper s \<in> set VALID_US_STATE_CODES \<Longrightarrow> s \<noteq> []" for s
    by (auto simp: py_upper_def)
  show ?thesis
    using codes nonempty[of "dict_get (current_row st) ''state'' []"]
    by (auto simp: places_search_node_def Let_def rejected_def address_only_def
          route_after_places_def split: option.splits)
qed



theorem places_search_rejects_witness:
  "(dict_get (current_row (parse_row_node (initial_state [bare_row]))) ''address'' [] = []
    \<and> snd (places_search_node demo_env (parse_row_node (initial_state [bare_row]))) = []
    \<and> error_message (fst (places_search_node demo_env (parse_row_node (initial_state [bare_row]))))
        = Some ''Incomplete address information''
    \<and> route_after_places (fst (places_search_node demo_env (parse_row_node (initial_state [bare_row]))))
        = ErrorHandler)
   \<and> (py_upper (dict_get (current_row (parse_row_node (initial_state [fake_row]))) ''state'' [])
        \<notin> set VALID_US_STATE_CODES
    \<and> snd (places_search_node demo_env (parse_row_node (initial_state [fake_row]))) = []
    \<and> error_message (fst (places_search_node demo_env (parse_row_node (initial_state [fake_row]))))
        = Some ''Invalid US state code: XX''
    \<and> route_after_places (fst (places_search_node demo_env (parse_row_node (initial_state [fake_row]))))
        = ErrorHandler)
   \<and> (py_upper (dict_get (current_row (parse_row_node (initial_state [unknown_row]))) ''state'' [])
        \<in> set VALID_US_STATE_CODES
    \<and> geocode_address demo_env ''9 Imaginary Lane'' ''Auburn'' ''CA'' = None
    \<and> error_message (fst (places_search_node demo_env (parse_row_node (initial_state [unknown_row]))))
        = Some ''Address not found: 9 Imaginary Lane, Auburn, CA''
    \<and> route_after_places (fst (places_search_node demo_env (parse_row_node (initial_state [unknown_row]))))
        = ErrorHandler)"
proof -
  let ?bare = "parse_row_node (initial_state [bare_row])"
  let ?fake = "parse_row_node (initial_state [fake_row])"
  let ?unknown = "parse_row_node (initial_state [unknown_row])"
  have bare: "dict_get (current_row ?bare) ''address'' [] = []"
    by code_simp
  have fake: "dict_get (current_row ?fake) ''address'' [] \<noteq> []"
    "dict_get (current_row ?fake) ''city'' [] \<noteq> []"
    "dict_get (current_row ?fake) ''state'' [] \<noteq> []"
    "py_upper (dict_get (current_row ?fake) ''state'' []) \<notin> set VALID_US_STATE_CODES"
    "py_upper (dict_get (current_row ?fake) ''state'' []) = ''XX''"
    by code_simp+
  have unknown: "dict_get (current_row ?unknown) ''address'' [] = ''9 Imaginary Lane''"
    "dict_get (current_row ?unknown) ''city'' [] = ''Auburn''"
    "py_upper (dict_get (current_row ?unknown) ''state'' []) = ''CA''"
    "''CA'' \<in> set VALID_US_STATE_CODES"
    "geocode_address demo_env ''9 Imaginary Lane'' ''Auburn'' ''CA'' = None"
    by code_simp+
  show ?thesis
    using bare fake unknown
      places_search_rejects [of ?bare demo_env]
      places_search_rejects [of ?fake demo_env]
      places_search_rejects [of ?unknown demo_env]
    by simp
qed

text \<open>
  What the distance check does for a row that passes the two input checks and whose
  geocoding succeeds: the row is never routed to the error handler, and when the place
  search returns no candidate, or a candidate with two non-zero coordinates whose
  computed distance from the geocoded point is greater than \<open>0.05\<close>, the result is the
  synthetic address-only one.
\<close>

lemma far_candidate_discarded:
  assumes "dict_get (current_row st) ''address'' [] \<noteq> []"
    and "dict_get (current_row st) ''city'' [] \<noteq> []"
    and "py_upper (dict_get (current_row st) ''state'' []) \<in> set VALID_US_STATE_CODES"
    and "geocode_address e (dict_get (current_row st) ''address'' [])
           (dict_get (current_row st) ''city'' [])
           (py_upper (dict_get (current_row st) ''state'' [])) = Some g"
    and "query = search_query (dict_get (current_row st) ''name'' [])
           (dict_get (current_row st) ''address'' []) (dict_get (current_row st) ''city'' [])
           (py_upper (dict_get (current_row st) ''state'' []))"
  shows "route_after_places (fst (places_search_node e st)) = Standardize
     \<and> (search_place e query (geo_latitude g) (geo_longitude g) = None
         \<or> (\<exists>r a b. search_place e query (geo_latitude g) (geo_longitude g) = Some r \<and>
               place_latitude r = Some a \<and> place_longitude r = Some b \<and> a \<noteq> 0 \<and> b \<noteq> 0 \<and>
               float_distance e a b (geo_latitude g) (geo_longitude g) > float_0_05)
         \<longrightarrow>
         places_result (fst (places_search_node e st)) = Some
           \<lparr>place_name = dict_get (current_row st) ''name'' [],
            place_formatted_address = geo_formatted_address g,
            place_latitude = Some (geo_latitude g),
            place_longitude = Some (geo_longitude g),
            place_types = [''premise''],
            place_address_components = geo_address_components g\<rparr>
         \<and> places_found (fst (places_search_node e st))
         \<and> latitude (fst (places_search_node e st)) = Some (geo_latitude g)
         \<and> longitude (fst (places_search_node e st)) = Some (geo_longitude g)
         \<and> places_type (fst (places_search_node e st)) = Some ''premise'')"
proof -
  have nonempty: "dict_get (current_row st) ''state'' [] \<noteq> []"
    using assms(3) by (auto simp: VALID_US_STATE_CODES_def py_upper_def)
  have route: "route_after_places (fst (places_search_node e st)) = Standardize"
    using assms(1-4) nonempty
    by (auto simp: places_search_node_def Let_def address_only_def route_after_places_def
          split: option.splits)
  have fallback: "places_result (fst (places_search_node e st)) = Some
           \<lparr>place_name = dict_get (current_row st) ''name'' [],
            place_formatted_address = geo_formatted_address g,
            place_latitude = Some (geo_latitude g),
            place_longitude = Some (geo_longitude g),
            place_types = [''premise''],
            place_address_components = geo_address_components g\<rparr>
         \<and> places_found (fst (places_search_node e st))
         \<and> latitude (fst (places_search_node e st)) = Some (geo_latitude g)
         \<and> longitude (fst (places_search_node e st)) = Some (geo_longitude g)
         \<and> places_type (fst (places_search_node e st)) = Some ''premise''"
    if "search_place e query (geo_latitude g) (geo_longitude g) = None
         \<or> (\<exists>r a b. search_place e query (geo_latitude g) (geo_longitude g) = Some r \<and>
               place_latitude r = Some a \<and> place_longitude r = Some b \<and> a \<noteq> 0 \<and> b \<noteq> 0 \<and>
               float_distance e a b (geo_latitude g) (geo_longitude g) > float_0_05)"
  proof -
    from that
    have "nearby_result e (search_place e query (geo_latitude g) (geo_longitude g)) g = None"
      by (auto simp: nearby_result_def)
    then show ?thesis
      using assms nonempty
      by (simp add: places_search_node_def Let_def address_only_def)
  qed
  show ?thesis using route fallback by blast
qed

text \<open>
  C7. The claim is that, once geocoding has succeeded, a candidate that lies more than
  0.05 degrees from the geocoded point is discarded for the synthetic address-only
  result. The code does so for a candidate with two non-zero coordinates
  (\<open>far_candidate_discarded\<close>), but its distance check sits under
  \<open>if places_lat and places_lng:\<close>, which takes a coordinate equal to zero for a missing
  one. A candidate with a latitude or a longitude of zero, and types that are not all
  non-business types, is therefore kept with its own first type, however far from the
  geocoded point it lies and whatever distance would have been computed.
\<close>

theorem zero_coordinate_skips_distance_check:
  assumes "dict_get (current_row st) ''address'' [] \<noteq> []"
    and "dict_get (current_row st) ''city'' [] \<noteq> []"
    and "py_upper (dict_get (current_row st) ''state'' []) \<in> set VALID_US_STATE_CODES"
    and "geocode_address e (dict_get (current_row st) ''address'' [])
           (dict_get (current_row st) ''city'' [])
           (py_upper (dict_get (current_row st) ''state'' [])) = Some g"
    and "search_place e
           (search_query (dict_get (current_row st) ''name'' [])
              (dict_get (current_row st) ''address'' []) (dict_get (current_row st) ''city'' [])
              (py_upper (dict_get (current_row st) ''state'' [])))
           (geo_latitude g) (geo_longitude g) = Some r"
    and "place_latitude r = Some 0 \<or> place_longitude r = Some 0"
    and "\<not> list_all (\<lambda>t. t \<in> set NON_BUSINESS_TYPES) (place_types r)"
  shows "places_result (fst (places_search_node e st)) = Some r
     \<and> places_found (fst (places_search_node e st))
     \<and> places_type (fst (places_search_node e st)) = Some (hd (place_types r))
     \<and> latitude (fst (places_search_node e st)) = Some (geo_latitude g)
     \<and> longitude (fst (places_search_node e st)) = Some (geo_longitude g)
     \<and> route_after_places (fst (places_search_node e st)) = Standardize"
proof -
  have nonempty: "dict_get (current_row st) ''state'' [] \<noteq> []"
    using assms(3) by (auto simp: VALID_US_STATE_CODES_def py_upper_def)
  have kept: "nearby_result e (Some r) g = Some r"
    using assms(6) by (auto simp: nearby_result_def split: option.splits)
  have types: "place_types r \<noteq> []"
    using assms(7) by auto
  show ?thesis
    using assms(1-5,7) nonempty kept types
    by (simp add: places_search_node_def Let_def route_after_places_def)
qed

theorem zero_coordinate_candidate_kept:
  "search_place meridian_env
      (search_query (dict_get (current_row demo_parsed) ''name'' [])
         (dict_get (current_row demo_parsed) ''address'' [])
         (dict_get (current_row demo_parsed) ''city'' [])
         (py_upper (dict_get (current_row demo_parsed) ''state'' [])))
      (geo_latitude demo_geocode) (geo_longitude demo_geocode) = Some meridian_place
   \<and> place_latitude meridian_place = Some 51.4779
   \<and> place_longitude meridian_place = Some 0
   \<and> geo_latitude demo_geocode = 38.9352
   \<and> geo_longitude demo_geocode = - 121.0933
   \<and> places_result (fst (places_search_node meridian_env demo_parsed)) = Some meridian_place
   \<and> places_type (fst (places_search_node meridian_env demo_parsed)) = Some ''real_estate_agency''
   \<and> route_after_places (fst (places_search_node meridian_env demo_parsed)) = Standardize"
proof -
  let ?q = "search_query (dict_get (current_row demo_parsed) ''name'' [])
         (dict_get (current_row demo_parsed) ''address'' [])
         (dict_get (current_row demo_parsed) ''city'' [])
         (py_upper (dict_get (current_row demo_parsed) ''state'' []))"
  have h1: "dict_get (current_row demo_parsed) ''address'' [] \<noteq> []"
    and h2: "dict_get (current_row demo_parsed) ''city'' [] \<noteq> []"
    and h3: "py_upper (dict_get (current_row demo_parsed) ''state'' []) \<in> set VALID_US_STATE_CODES"
    and h4: "geocode_address meridian_env (dict_get (current_row demo_parsed) ''address'' [])
        (dict_get (current_row demo_parsed) ''city'' [])
        (py_upper (dict_get (current_row demo_parsed) ''state'' [])) = Some demo_geocode"
    by code_simp+
  have h5: "search_place meridian_env ?q (geo_latitude demo_geocode) (geo_longitude demo_geocode)
              = Some meridian_place"
    by (simp add: meridian_env_def)
  have p: "place_latitude meridian_place = Some 51.4779"
    "place_longitude meridian_place = Some 0"
    "hd (place_types meridian_place) = ''real_estate_agency''"
    by (simp_all add: meridian_place_def)
  have h6: "place_latitude meridian_place = Some 0 \<or> place_longitude meridian_place = Some 0"
    using p(2) by blast
  have h7: "\<not> list_all (\<lambda>t. t \<in> set NON_BUSINESS_TYPES) (place_types meridian_place)"
    by code_simp
  have g: "geo_latitude demo_geocode = 38.9352" "geo_longitude demo_geocode = - 121.0933"
    by (simp_all add: demo_geocode_def)
  from zero_coordinate_skips_distance_check [OF h1 h2 h3 h4 h5 h6 h7]
  have "places_result (fst (places_search_node meridian_env demo_parsed)) = Some meridian_place
     \<and> places_type (fst (places_search_node meridian_env demo_parsed))
         = Some (hd (place_types meridian_place))
     \<and> route_after_places (fst (places_search_node meridian_env demo_parsed)) = Standardize"
    by blast
  then have r: "places_result (fst (places_search_node meridian_env demo_parsed)) = Some meridian_place
     \<and> places_type (fst (places_search_node meridian_env demo_parsed)) = Some ''real_estate_agency''
     \<and> route_after_places (fst (places_search_node meridian_env demo_parsed)) = Standardize"
    unfolding p(3) .
  show ?thesis
    using h5 p(1,2) g r by blast
qed

section \<open>Coordinates equal to zero\<close>

lemma blank_coordinate:
  "x = None \<or> x = Some 0 \<Longrightarrow> coordinate_text e x = []"
  by (auto simp: coordinate_text_def)

lemma missing_latitude:
  assumes "latitude st = None \<or> latitude st = Some 0"
    and "output_row (format_output_node e st) = Some out"
  shows "''Missing required field: Latitude'' \<in> set (violations e out)"
proof -
  have "map_of (columns out) ''Latitude'' = Some []"
    using assms by (auto simp: format_output_node_def blank_coordinate)
  then have "is_blank (map_of (columns out) ''Latitude'')"
    by (simp add: is_blank_def)
  then have "''Missing required field: Latitude'' \<in> set (required_field_errors (columns out))"
    by (simp add: required_field_errors_def required_fields_def)
  then show ?thesis by (simp add: violations_def)
qed

lemma missing_longitude:
  assumes "longitude st = None \<or> longitude st = Some 0"
    and "output_row (format_output_node e st) = Some out"
  shows "''Missing required field: Longitude'' \<in> set (violations e out)"
proof -
  have "map_of (columns out) ''Longitude'' = Some []"
    using assms by (auto simp: format_output_node_def blank_coordinate)
  then have "is_blank (map_of (columns out) ''Longitude'')"
    by (simp add: is_blank_def)
  then have "''Missing required field: Longitude'' \<in> set (required_field_errors (columns out))"
    by (simp add: required_field_errors_def required_fields_def)
  then show ?thesis by (simp add: violations_def)
qed

text \<open>
  C9. If a row reaches \<open>database_query\<close> with a latitude or longitude that is \<open>None\<close> or
  zero, the node makes no spatial query of the records store and the row goes on to
  occupancy classification without duplicate candidates. \<open>format_output\<close> writes the
  empty string for such a coordinate, and \<open>verify_output\<close> then reports the required
  field as missing and routes the row to the error handler.
\<close>

theorem zero_coordinate_is_absent:
  assumes "latitude st = None \<or> latitude st = Some 0
           \<or> longitude st = None \<or> longitude st = Some 0"
  shows "(\<forall>c \<in> set (snd (database_query_node e st)). \<not> is_location_query c)
     \<and> existing_premises (fst (database_query_node e st)) = []
     \<and> duplicate_found (fst (database_query_node e st)) = False
     \<and> route_after_database (fst (database_query_node e st)) = OccupancyClassification
     \<and> (\<exists>out s. step e (FormatOutput, st) = Some (VerifyOutput, st\<lparr>output_row := Some out,
                     next_step := ''verify_output'', error_message := None\<rparr>)
          \<and> (latitude st = None \<or> latitude st = Some 0 \<longrightarrow>
                map_of (columns out) ''Latitude'' = Some [])
          \<and> (longitude st = None \<or> longitude st = Some 0 \<longrightarrow>
                map_of (columns out) ''Longitude'' = Some [])
          \<and> step e (VerifyOutput, st\<lparr>output_row := Some out,
                     next_step := ''verify_output'', error_message := None\<rparr>)
                = Some (ErrorHandler, s)
          \<and> (''Missing required field: Latitude'' \<in> set (validation_errors s)
               \<or> ''Missing required field: Longitude'' \<in> set (validation_errors s))
          \<and> verification_passed s = False
          \<and> successful_rows s = successful_rows st)"
proof -
  have db: "(\<forall>c \<in> set (snd (database_query_node e st)). \<not> is_location_query c)
     \<and> existing_premises (fst (database_query_node e st)) = []
     \<and> duplicate_found (fst (database_query_node e st)) = False
     \<and> route_after_database (fst (database_query_node e st)) = OccupancyClassification"
    using assms
    by (auto simp: database_query_node_def Let_def route_after_database_def
          split: option.splits)
  obtain out where out: "output_row (format_output_node e st) = Some out"
    by (simp add: format_output_node_def)
  let ?s1 = "st\<lparr>output_row := Some out, next_step := ''verify_output'', error_message := None\<rparr>"
  have s1: "format_output_node e st = ?s1"
    using out by (simp add: format_output_node_def)
  have lat: "latitude st = None \<or> latitude st = Some 0 \<longrightarrow>
                map_of (columns out) ''Latitude'' = Some []"
    using out by (auto simp: format_output_node_def blank_coordinate)
  have lng: "longitude st = None \<or> longitude st = Some 0 \<longrightarrow>
                map_of (columns out) ''Longitude'' = Some []"
    using out by (auto simp: format_output_node_def blank_coordinate)
  have miss: "''Missing required field: Latitude'' \<in> set (violations e out)
               \<or> ''Missing required field: Longitude'' \<in> set (violations e out)"
    using assms missing_latitude[OF _ out] missing_longitude[OF _ out] by blast
  then have bad: "violations e out \<noteq> []" by auto
  let ?s2 = "?s1\<lparr>verification_passed := False, validation_errors := violations e out,
                 next_step := ''error_handler'',
                 error_message := Some (''Output validation failed: '' @
                                        py_join ''; '' (violations e out))\<rparr>"
  have v: "step e (VerifyOutput, ?s1) = Some (ErrorHandler, ?s2)"
    using bad by (simp add: verify_output_node_def Let_def route_after_verify_def)
  have f: "step e (FormatOutput, st) = Some (VerifyOutput, ?s1)"
    using s1 by simp
  have "(''Missing required field: Latitude'' \<in> set (validation_errors ?s2)
               \<or> ''Missing required field: Longitude'' \<in> set (validation_errors ?s2))
          \<and> verification_passed ?s2 = False
          \<and> successful_rows ?s2 = successful_rows st"
    using miss by simp
  with f lat lng v have "\<exists>out s. step e (FormatOutput, st) = Some (VerifyOutput, st\<lparr>output_row := Some out,
                     next_step := ''verify_output'', error_message := None\<rparr>)
          \<and> (latitude st = None \<or> latitude st = Some 0 \<longrightarrow>
                map_of (columns out) ''Latitude'' = Some [])
          \<and> (longitude st = None \<or> longitude st = Some 0 \<longrightarrow>
                map_of (columns out) ''Longitude'' = Some [])
          \<and> step e (VerifyOutput, st\<lparr>output_row := Some out,
                     next_step := ''verify_output'', error_message := None\<rparr>)
                = Some (ErrorHandler, s)
          \<and> (''Missing required field: Latitude'' \<in> set (validation_errors s)
               \<or> ''Missing required field: Longitude'' \<in> set (validation_errors s))
          \<and> verification_passed s = False
          \<and> successful_rows s = successful_rows st"
    by blast
  with db show ?thesis by blast
qed

theorem zero_coordinate_is_absent_witness:
  "latitude equator_state = Some 0
   \<and> filter is_location_query (snd (database_query_node equator_env equator_state)) = []
   \<and> existing_premises (fst (database_query_node equator_env equator_state)) = []
   \<and> route_after_database (fst (database_query_node equator_env equator_state))
        = OccupancyClassification"
proof -
  have h: "latitude equator_state = Some 0"
    by code_simp
  then have "latitude equator_state = None \<or> latitude equator_state = Some 0
           \<or> longitude equator_state = None \<or> longitude equator_state = Some 0"
    by blast
  from zero_coordinate_is_absent [OF this, of equator_env]
  have r: "(\<forall>c \<in> set (snd (database_query_node equator_env equator_state)).
              \<not> is_location_query c)"
    "existing_premises (fst (database_query_node equator_env equator_state)) = []"
    "route_after_database (fst (database_query_node equator_env equator_state))
        = OccupancyClassification"
    by blast+
  from r(1) have "filter is_location_query
      (snd (database_query_node equator_env equator_state)) = []"
    by (simp add: filter_empty_conv)
  with h r(2,3) show ?thesis by blast
qed

section \<open>Standardization after identity resolution\<close>

lemma places_to_standardize:
  "route_after_places (fst (places_search_node e st)) = Standardize \<Longrightarrow>
   places_found (fst (places_search_node e st)) \<and>
   places_result (fst (places_search_node e st)) \<noteq> None"
  by (auto simp: places_search_node_def Let_def rejected_def address_only_def
        route_after_places_def split: option.splits if_splits)

lemma step_to_standardize:
  assumes "step e (n, st) = Some (Standardize, s)"
  shows "n = PlacesSearch \<and> s = fst (places_search_node e st)"
  using assms
  by (cases n)
     (auto simp: Let_def route_after_parse_def route_after_places_def route_after_database_def
        route_after_confidence_def route_after_verify_def route_next_row_def
        split: option.splits if_splits)

lemma reachable_standardize:
  assumes "reachable e rows (Standardize, s)"
  shows "\<exists>pr. places_result s = Some pr \<and> places_found s \<and>
              standardize_node s = standardize_from_places s pr"
proof -
  from assms obtain c where "step e c = Some (Standardize, s)"
    by (auto elim: reachable.cases)
  moreover obtain n st where c: "c = (n, st)" by (cases c)
  ultimately have step: "step e (n, st) = Some (Standardize, s)" by simp
  from step_to_standardize[OF step]
  have n: "n = PlacesSearch" and s: "s = fst (places_search_node e st)" by auto
  have "route_after_places s = Standardize"
    using step n s by (auto simp: Let_def)
  with places_to_standardize[of e st] s
  have "places_found s" "places_result s \<noteq> None" by auto
  then show ?thesis by (auto simp: standardize_node_def)
qed

lemma nearby_result_Some:
  "nearby_result e x g = Some r \<Longrightarrow> x = Some r"
  by (auto simp: nearby_result_def split: option.splits if_splits)

lemma places_supplies_identity:
  assumes "route_after_places (fst (places_search_node e st)) = Standardize"
  shows "places_found (fst (places_search_node e st)) \<and>
     (\<exists>g. geocode_address e (dict_get (current_row st) ''address'' [])
             (dict_get (current_row st) ''city'' [])
             (py_upper (dict_get (current_row st) ''state'' [])) = Some g \<and>
        ((\<exists>r. search_place e
                 (search_query (dict_get (current_row st) ''name'' [])
                    (dict_get (current_row st) ''address'' [])
                    (dict_get (current_row st) ''city'' [])
                    (py_upper (dict_get (current_row st) ''state'' [])))
                 (geo_latitude g) (geo_longitude g) = Some r \<and>
               places_result (fst (places_search_node e st)) = Some r)
         \<or> places_result (fst (places_search_node e st)) = Some
              \<lparr>place_name = dict_get (current_row st) ''name'' [],
               place_formatted_address = geo_formatted_address g,
               place_latitude = Some (geo_latitude g),
               place_longitude = Some (geo_longitude g),
               place_types = [''premise''],
               place_address_components = geo_address_components g\<rparr>))"
  using assms
  by (auto simp: places_search_node_def Let_def rejected_def address_only_def
        route_after_places_def split: option.splits if_splits dest: nearby_result_Some)

text \<open>
  C10. Whenever \<open>places_search_node\<close> routes a row to standardization, geocoding has
  succeeded, the found flag is set, and the places result is either the candidate that
  the place search returned or the synthetic address-only result built from the
  geocoded address. So in every state in which a run reaches \<open>standardize\<close> the node
  takes the branch that uses that result, never the branch that title-cases the user's
  name and passes the address fields through.
\<close>

theorem standardize_has_identity:
  "(route_after_places (fst (places_search_node e st)) = Standardize \<longrightarrow>
      places_found (fst (places_search_node e st)) \<and>
      (\<exists>g. geocode_address e (dict_get (current_row st) ''address'' [])
              (dict_get (current_row st) ''city'' [])
              (py_upper (dict_get (current_row st) ''state'' [])) = Some g \<and>
         ((\<exists>r. search_place e
                  (search_query (dict_get (current_row st) ''name'' [])
                     (dict_get (current_row st) ''address'' [])
                     (dict_get (current_row st) ''city'' [])
                     (py_upper (dict_get (current_row st) ''state'' [])))
                  (geo_latitude g) (geo_longitude g) = Some r \<and>
                places_result (fst (places_search_node e st)) = Some r)
          \<or> places_result (fst (places_search_node e st)) = Some
               \<lparr>place_name = dict_get (current_row st) ''name'' [],
                place_formatted_address = geo_formatted_address g,
                place_latitude = Some (geo_latitude g),
                place_longitude = Some (geo_longitude g),
                place_types = [''premise''],
                place_address_components = geo_address_components g\<rparr>)))
   \<and> (reachable e rows (Standardize, s) \<longrightarrow>
        (\<exists>pr. places_result s = Some pr \<and> places_found s \<and>
              standardize_node s = standardize_from_places s pr))"
  using places_supplies_identity[of e st] reachable_standardize[of e rows s] by blast

theorem standardize_has_identity_witness:
  "route_after_places (fst (places_search_node demo_env demo_parsed)) = Standardize
   \<and> geocode_address demo_env (dict_get (current_row demo_parsed) ''address'' [])
        (dict_get (current_row demo_parsed) ''city'' [])
        (py_upper (dict_get (current_row demo_parsed) ''state'' [])) = Some demo_geocode
   \<and> search_place demo_env
        (search_query (dict_get (current_row demo_parsed) ''name'' [])
           (dict_get (current_row demo_parsed) ''address'' [])
           (dict_get (current_row demo_parsed) ''city'' [])
           (py_upper (dict_get (current_row demo_parsed) ''state'' [])))
        (geo_latitude demo_geocode) (geo_longitude demo_geocode) = Some demo_place
   \<and> places_result (fst (places_search_node demo_env demo_parsed)) = Some demo_place
   \<and> places_found (fst (places_search_node demo_env demo_parsed))
   \<and> reachable demo_env [demo_row] (Standardize, demo_resolved)
   \<and> places_found demo_resolved
   \<and> (\<exists>pr. places_result demo_resolved = Some pr \<and>
            standardize_node demo_resolved = standardize_from_places demo_resolved pr)"
proof -
  have s1: "step demo_env (ParseRow, initial_state [demo_row]) = Some (PlacesSearch, demo_parsed)"
    by code_simp
  have s2: "step demo_env (PlacesSearch, demo_parsed) = Some (Standardize, demo_resolved)"
    by code_simp
  have r0: "reachable demo_env [demo_row] (ParseRow, initial_state [demo_row])"
    by (rule reach_start)
  have r1: "reachable demo_env [demo_row] (PlacesSearch, demo_parsed)"
    by (rule reach_step [OF r0 _ s1]) simp
  have r2: "reachable demo_env [demo_row] (Standardize, demo_resolved)"
    by (rule reach_step [OF r1 _ s2]) simp
  have h: "route_after_places (fst (places_search_node demo_env demo_parsed)) = Standardize"
    by code_simp
  have g: "geocode_address demo_env (dict_get (current_row demo_parsed) ''address'' [])
        (dict_get (current_row demo_parsed) ''city'' [])
        (py_upper (dict_get (current_row demo_parsed) ''state'' [])) = Some demo_geocode"
    by code_simp
  have c: "search_place demo_env
        (search_query (dict_get (current_row demo_parsed) ''name'' [])
           (dict_get (current_row demo_parsed) ''address'' [])
           (dict_get (current_row demo_parsed) ''city'' [])
           (py_upper (dict_get (current_row demo_parsed) ''state'' [])))
        (geo_latitude demo_geocode) (geo_longitude demo_geocode) = Some demo_place"
    by code_simp
  have p: "places_result (fst (places_search_node demo_env demo_parsed)) = Some demo_place"
    by code_simp
  show ?thesis
    using h g c p r2
      standardize_has_identity [of demo_env demo_parsed "[demo_row]" demo_resolved]
    by blast
qed

section \<open>The error accumulator\<close>

text \<open>
  C5 (as amended). The error handler appends one entry: the current row, which is the
  normalized row (the keys \<open>name\<close>, \<open>address\<close>, \<open>city\<close>, \<open>state\<close>, \<open>postal_code\<close> with
  stripped values), together with \<open>error_reason\<close> set to the error message that the
  routing node reported. So a row whose pass ends in the error accumulator leaves there
  the normalization of its input row with a reason.
\<close>

theorem error_entry_is_normalized_row:
  "step e (ErrorHandler, s) =
     Some (NextRow, s\<lparr>error_rows := error_rows s @
                        [error_entry_of (current_row s) (error_message s)],
                      next_step := ''next_row'', error_message := None\<rparr>)
   \<and> (current_row_index st < length (csv_rows st) \<longrightarrow>
        (\<exists>st'. row_pass e (ParseRow, st) = Some (NextRow, st') \<and>
           (error_rows st' = error_rows st \<or>
            (\<exists>reason. error_rows st' = error_rows st @
               [error_entry_of (normalize_row (csv_rows st ! current_row_index st))
                  (Some reason)]))))"
proof -
  have "\<exists>st'. row_pass e (ParseRow, st) = Some (NextRow, st') \<and>
           (error_rows st' = error_rows st \<or>
            (\<exists>reason. error_rows st' = error_rows st @
               [error_entry_of (normalize_row (csv_rows st ! current_row_index st))
                  (Some reason)]))"
    if "current_row_index st < length (csv_rows st)"
    using pass_parse[OF that, of e]
    by (auto simp: processed_row_def failed_row_def duplicate_row_def)
  then show ?thesis
    by (simp add: error_handler_node_def)
qed


theorem error_entry_is_normalized_row_witness:
  "current_row_index (initial_state [raw_row]) < length (csv_rows (initial_state [raw_row]))
   \<and> (\<exists>st'. row_pass demo_env (ParseRow, initial_state [raw_row]) = Some (NextRow, st') \<and>
         (error_rows st' = error_rows (initial_state [raw_row]) \<or>
          (\<exists>reason. error_rows st' = error_rows (initial_state [raw_row]) @
             [error_entry_of
                (normalize_row (csv_rows (initial_state [raw_row]) !
                   current_row_index (initial_state [raw_row])))
                (Some reason)])))"
proof -
  have h: "current_row_index (initial_state [raw_row]) < length (csv_rows (initial_state [raw_row]))"
    by (simp add: initial_state_def)
  show ?thesis
    using h error_entry_is_normalized_row [of demo_env _ "initial_state [raw_row]"] by blast
qed

text \<open>
  C5 (as stated) fails: the entry does not hold the fields as read from the input file.
  Their headers are replaced by the canonical ones and a column that no field takes is
  dropped.
\<close>

theorem error_entry_drops_raw_fields:
  "map_option error_rows (run_premises_processing demo_env [raw_row]) =
     Some [[(''name'', Some ''Acme Corp''), (''address'', Some []), (''city'', Some ''Auburn''),
            (''state'', Some ''CA''), (''postal_code'', Some []),
            (''error_reason'', Some ''Incomplete address information'')]]
   \<and> error_entry_of raw_row (Some ''Incomplete address information'') =
       [(''business_name'', Some ''Acme Corp''), (''street'', Some []), (''town'', Some ''Auburn''),
        (''ST'', Some ''CA''), (''phone'', Some ''555-0100''),
        (''error_reason'', Some ''Incomplete address information'')]"
  by code_simp

section \<open>The confidence threshold\<close>

lemma pass_unlogged:
  assumes "row_pass e (OccupancyClassification, s) = Some (NextRow, st')"
  shows "duplicate_log st' = duplicate_log s"
  using assms pass_occupancy[of e s]
  by (auto simp: processed_row_def failed_row_def)

text \<open>
  C3. For a row that reaches confidence scoring with a non-empty candidate list, a score
  of 8 or more routes it to duplicate logging: its pass ends with one entry appended to
  the duplicate log, carrying the score and the identifier of the closest candidate,
  and with the processed and error accumulators unchanged. A score below 8 routes it
  to occupancy classification, and its pass ends with the duplicate log unchanged. A
  row for which the records store returned no candidates goes from the database query
  to occupancy classification, and its pass ends with the duplicate log unchanged.
\<close>

theorem confidence_threshold:
  "(existing_premises st = p # ps \<and> score_duplicate_confidence e (comparison_record st) p \<ge> 8 \<longrightarrow>
      (\<exists>s. step e (ConfidenceScoring, st) = Some (LogDuplicate, s)) \<and>
      (\<exists>st' d. row_pass e (ConfidenceScoring, st) = Some (NextRow, st') \<and>
         duplicate_log st' = duplicate_log st @ [d] \<and>
         dup_confidence_score d = Some (score_duplicate_confidence e (comparison_record st) p) \<and>
         dup_matched_premise_id d = Some (premise_id p) \<and>
         successful_rows st' = successful_rows st \<and> error_rows st' = error_rows st))
   \<and> (existing_premises st = p # ps \<and> score_duplicate_confidence e (comparison_record st) p < 8 \<longrightarrow>
      (\<exists>s. step e (ConfidenceScoring, st) = Some (OccupancyClassification, s)) \<and>
      (\<exists>st'. row_pass e (ConfidenceScoring, st) = Some (NextRow, st') \<and>
         duplicate_log st' = duplicate_log st))
   \<and> (existing_premises (fst (database_query_node e st)) = [] \<longrightarrow>
      (\<exists>s. step e (DatabaseQuery, st) = Some (OccupancyClassification, s)) \<and>
      (\<exists>st'. row_pass e (DatabaseQuery, st) = Some (NextRow, st') \<and>
         duplicate_log st' = duplicate_log st))"
proof (intro conjI impI)
  assume a: "existing_premises st = p # ps \<and>
             score_duplicate_confidence e (comparison_record st) p \<ge> 8"
  let ?s = "fst (confidence_scoring_node e st)"
  have step: "step e (ConfidenceScoring, st) = Some (LogDuplicate, ?s)"
    using a by (simp add: confidence_scoring_node_def Let_def route_after_confidence_def)
  then show "\<exists>s. step e (ConfidenceScoring, st) = Some (LogDuplicate, s)" by blast
  have "row_pass e (ConfidenceScoring, st) = Some (NextRow, log_duplicate_node ?s)"
    using step by (simp add: row_pass_step pass_log_duplicate)
  moreover have "duplicate_log (log_duplicate_node ?s) = duplicate_log st @
      [\<lparr>source_name = dict_get (current_row st) ''name'' [],
        source_address = dict_get (current_row st) ''address'' [],
        dup_standardized_name = standardized_name st,
        dup_matched_premise_id = Some (premise_id p),
        dup_confidence_score = Some (score_duplicate_confidence e (comparison_record st) p),
        reason = ''High confidence match (score: '' @
                 py_str_opt_int (Some (score_duplicate_confidence e (comparison_record st) p)) @
                 '')''\<rparr>]"
    "successful_rows (log_duplicate_node ?s) = successful_rows st"
    "error_rows (log_duplicate_node ?s) = error_rows st"
    using a by (simp_all add: log_duplicate_node_def confidence_scoring_node_def Let_def)
  ultimately show "\<exists>st' d. row_pass e (ConfidenceScoring, st) = Some (NextRow, st') \<and>
         duplicate_log st' = duplicate_log st @ [d] \<and>
         dup_confidence_score d = Some (score_duplicate_confidence e (comparison_record st) p) \<and>
         dup_matched_premise_id d = Some (premise_id p) \<and>
         successful_rows st' = successful_rows st \<and> error_rows st' = error_rows st"
    by (intro exI conjI) (assumption, assumption, simp_all)
next
  assume a: "existing_premises st = p # ps \<and>
             score_duplicate_confidence e (comparison_record st) p < 8"
  let ?s = "fst (confidence_scoring_node e st)"
  have step: "step e (ConfidenceScoring, st) = Some (OccupancyClassification, ?s)"
    using a by (simp add: confidence_scoring_node_def Let_def route_after_confidence_def)
  then show "\<exists>s. step e (ConfidenceScoring, st) = Some (OccupancyClassification, s)" by blast
  obtain st' where st': "row_pass e (OccupancyClassification, ?s) = Some (NextRow, st')"
    using pass_occupancy[of e ?s] by blast
  have "duplicate_log ?s = duplicate_log st"
    using unchanged_confidence[of st e] by (simp add: unchanged_def)
  with pass_unlogged[OF st'] have "duplicate_log st' = duplicate_log st" by simp
  moreover have "row_pass e (ConfidenceScoring, st) = Some (NextRow, st')"
    using step st' by (simp add: row_pass_step)
  ultimately show "\<exists>st'. row_pass e (ConfidenceScoring, st) = Some (NextRow, st') \<and>
         duplicate_log st' = duplicate_log st" by blast
next
  assume a: "existing_premises (fst (database_query_node e st)) = []"
  let ?s = "fst (database_query_node e st)"
  have "next_step ?s = ''occupancy_classification''"
    using a by (auto simp: database_query_node_def Let_def split: if_splits)
  then have step: "step e (DatabaseQuery, st) = Some (OccupancyClassification, ?s)"
    by (simp add: Let_def route_after_database_def)
  then show "\<exists>s. step e (DatabaseQuery, st) = Some (OccupancyClassification, s)" by blast
  obtain st' where st': "row_pass e (OccupancyClassification, ?s) = Some (NextRow, st')"
    using pass_occupancy[of e ?s] by blast
  have "duplicate_log ?s = duplicate_log st"
    using unchanged_database[of st e] by (simp add: unchanged_def)
  with pass_unlogged[OF st'] have "duplicate_log st' = duplicate_log st" by simp
  moreover have "row_pass e (DatabaseQuery, st) = Some (NextRow, st')"
    using step st' by (simp add: row_pass_step)
  ultimately show "\<exists>st'. row_pass e (DatabaseQuery, st) = Some (NextRow, st') \<and>
         duplicate_log st' = duplicate_log st" by blast
qed

theorem confidence_threshold_witness:
  "(existing_premises demo_candidates = [demo_premise]
    \<and> score_duplicate_confidence crowded_env (comparison_record demo_candidates) demo_premise \<ge> 8
    \<and> (\<exists>s. step crowded_env (ConfidenceScoring, demo_candidates) = Some (LogDuplicate, s))
    \<and> (\<exists>st' d. row_pass crowded_env (ConfidenceScoring, demo_candidates) = Some (NextRow, st') \<and>
          duplicate_log st' = duplicate_log demo_candidates @ [d] \<and>
          successful_rows st' = successful_rows demo_candidates))
   \<and> (score_duplicate_confidence doubtful_env (comparison_record demo_candidates) demo_premise < 8
    \<and> (\<exists>s. step doubtful_env (ConfidenceScoring, demo_candidates)
              = Some (OccupancyClassification, s))
    \<and> (\<exists>st'. row_pass doubtful_env (ConfidenceScoring, demo_candidates) = Some (NextRow, st') \<and>
          duplicate_log st' = duplicate_log demo_candidates))
   \<and> (existing_premises (fst (database_query_node demo_env demo_standardized)) = []
    \<and> (\<exists>st'. row_pass demo_env (DatabaseQuery, demo_standardized) = Some (NextRow, st') \<and>
          duplicate_log st' = duplicate_log demo_standardized))"
proof -
  have c: "existing_premises demo_candidates = [demo_premise]"
    by code_simp
  have hi: "score_duplicate_confidence crowded_env (comparison_record demo_candidates) demo_premise \<ge> 8"
    by (simp add: crowded_env_def demo_env_def)
  have lo: "score_duplicate_confidence doubtful_env (comparison_record demo_candidates) demo_premise < 8"
    by (simp add: doubtful_env_def)
  have none: "existing_premises (fst (database_query_node demo_env demo_standardized)) = []"
    by code_simp
  show ?thesis
    using c hi lo none
      confidence_threshold [of demo_candidates demo_premise "[]" crowded_env]
      confidence_threshold [of demo_candidates demo_premise "[]" doubtful_env]
      confidence_threshold [of demo_standardized demo_premise "[]" demo_env]
    by blast
qed

section \<open>Output validation\<close>

lemma required_ok:
  "required_field_errors cols = [] \<longleftrightarrow>
   list_all (\<lambda>field_name. \<not> is_blank (map_of cols field_name)) required_fields"
  by (auto simp: required_field_errors_def filter_empty_conv list_all_iff)

lemma required_present:
  assumes "list_all (\<lambda>field_name. \<not> is_blank (map_of cols field_name)) required_fields"
  shows "\<exists>a b s p. map_of cols ''Latitude'' = Some a \<and> map_of cols ''Longitude'' = Some b \<and>
           map_of cols ''State'' = Some s \<and> s \<noteq> [] \<and>
           map_of cols ''Postal Code'' = Some p \<and> p \<noteq> []"
  using assms
  by (auto simp: required_fields_def is_blank_def split: option.splits)

lemma coordinates_ok:
  assumes "map_of cols ''Latitude'' = Some a" and "map_of cols ''Longitude'' = Some b"
  shows "coordinate_errors e cols = [] \<longleftrightarrow>
     (case (py_float e a, py_float e b) of
        (Some lat, Some lng) \<Rightarrow>
          - 90 \<le> lat \<and> lat \<le> 90 \<and> - 180 \<le> lng \<and> lng \<le> 180 \<and> \<not> (lat = 0 \<and> lng = 0)
      | _ \<Rightarrow> False)"
  using assms
  by (auto simp: coordinate_errors_def float_of_column_def split: option.splits)

lemma formats_ok:
  assumes "map_of cols ''State'' = Some s" and "s \<noteq> []"
    and "map_of cols ''Postal Code'' = Some p" and "p \<noteq> []"
  shows "format_errors cols = [] \<longleftrightarrow>
     match_state_code (dict_get cols ''State'' [])
     \<and> match_postal_code (dict_get cols ''Postal Code'' [])
     \<and> dict_get cols ''Status'' [] \<in> set [''Active'', ''Inactive'']
     \<and> dict_get cols ''Country'' [] \<in> set [[], ''USA'']
     \<and> dict_get cols ''Country ShortName'' [] \<in> set [[], ''US'']"
  using assms
  by (auto simp: format_errors_def Let_def dict_get_def)

lemma violations_none_iff: "violations e out = [] \<longleftrightarrow> meets_rules e out"
proof (cases "list_all (\<lambda>field_name. \<not> is_blank (map_of (columns out) field_name))
                required_fields")
  case True
  from required_present[OF True] obtain a b s p where
    f: "map_of (columns out) ''Latitude'' = Some a" "map_of (columns out) ''Longitude'' = Some b"
       "map_of (columns out) ''State'' = Some s" "s \<noteq> []"
       "map_of (columns out) ''Postal Code'' = Some p" "p \<noteq> []"
    by blast
  show ?thesis
    using True f coordinates_ok[OF f(1,2), of e] formats_ok[OF f(3-6)]
    by (simp add: violations_def meets_rules_def Let_def required_ok)
next
  case False
  then show ?thesis
    by (simp add: violations_def meets_rules_def Let_def required_ok)
qed

text \<open>
  C4. Every record in the processed accumulator at the end of a run meets the
  validation rules: the nine required fields are not blank, latitude and longitude
  parse as numbers in [-90, 90] and [-180, 180] and are not both zero, the state
  matches \<open>^[A-Z]{2}$\<close>, the postal code matches \<open>^\d{5}(-\d{4})?$\<close>, the status
  is \<open>Active\<close> or \<open>Inactive\<close> (and the country fields, when present, are \<open>USA\<close> and
  \<open>US\<close>). \<open>verify_output_node\<close> appends the output row to the processed accumulator
  and routes to \<open>next_row\<close> if the list of violations is empty, and otherwise leaves the
  accumulator as it is and routes to the error handler with the joined message; the
  list is empty exactly when the rules are met.
\<close>

theorem processed_rows_are_valid:
  "(run_premises_processing e rows = Some fin \<longrightarrow>
      (\<forall>out \<in> set (successful_rows fin). meets_rules e out))
   \<and> (output_row st = Some out \<longrightarrow>
        (\<exists>s. verify_output_node e st = Some s \<and>
           (violations e out = [] \<longrightarrow>
              successful_rows s = successful_rows st @ [out] \<and>
              route_after_verify s = NextRow) \<and>
           (violations e out \<noteq> [] \<longrightarrow>
              successful_rows s = successful_rows st \<and>
              route_after_verify s = ErrorHandler \<and>
              validation_errors s = violations e out \<and>
              error_message s = Some (''Output validation failed: '' @
                                      py_join ''; '' (violations e out)))))
   \<and> (violations e out = [] \<longleftrightarrow> meets_rules e out)"
proof (intro conjI impI)
  assume "run_premises_processing e rows = Some fin"
  with run_returns[of e rows]
  have "\<forall>out \<in> set (successful_rows fin). violations e out = []" by auto
  then show "\<forall>out \<in> set (successful_rows fin). meets_rules e out"
    by (simp add: violations_none_iff)
next
  assume "output_row st = Some out"
  then show "\<exists>s. verify_output_node e st = Some s \<and>
           (violations e out = [] \<longrightarrow>
              successful_rows s = successful_rows st @ [out] \<and>
              route_after_verify s = NextRow) \<and>
           (violations e out \<noteq> [] \<longrightarrow>
              successful_rows s = successful_rows st \<and>
              route_after_verify s = ErrorHandler \<and>
              validation_errors s = violations e out \<and>
              error_message s = Some (''Output validation failed: '' @
                                      py_join ''; '' (violations e out)))"
    by (simp add: verify_output_node_def Let_def route_after_verify_def)
next
  show "violations e out = [] \<longleftrightarrow> meets_rules e out"
    by (rule violations_none_iff)
qed

theorem processed_rows_are_valid_witness:
  "run_premises_processing demo_env [demo_row] = Some demo_final
   \<and> successful_rows demo_final = [demo_output]
   \<and> meets_rules demo_env demo_output
   \<and> output_row demo_pass_end = Some demo_output
   \<and> violations demo_env demo_output = []
   \<and> (\<exists>s. verify_output_node demo_env demo_pass_end = Some s \<and>
          successful_rows s = successful_rows demo_pass_end @ [demo_output] \<and>
          route_after_verify s = NextRow)
   \<and> output_row equator_formatted = Some equator_output
   \<and> violations equator_env equator_output \<noteq> []
   \<and> (\<exists>s. verify_output_node equator_env equator_formatted = Some s \<and>
          successful_rows s = successful_rows equator_formatted \<and>
          route_after_verify s = ErrorHandler)"
proof -
  have run: "run_premises_processing demo_env [demo_row] = Some demo_final"
    by code_simp
  have one: "successful_rows demo_final = [demo_output]"
    by code_simp
  have out: "output_row demo_pass_end = Some demo_output"
    by code_simp
  have bad: "output_row equator_formatted = Some equator_output"
    "violations equator_env equator_output \<noteq> []"
    by code_simp+
  from processed_rows_are_valid [of demo_env "[demo_row]" demo_final demo_pass_end demo_output]
    run one out
  have good: "meets_rules demo_env demo_output" "violations demo_env demo_output = []"
    "\<exists>s. verify_output_node demo_env demo_pass_end = Some s \<and>
          successful_rows s = successful_rows demo_pass_end @ [demo_output] \<and>
          route_after_verify s = NextRow"
    by auto
  from processed_rows_are_valid [of equator_env "[]" _ equator_formatted equator_output] bad
  have "\<exists>s. verify_output_node equator_env equator_formatted = Some s \<and>
          successful_rows s = successful_rows equator_formatted \<and>
          route_after_verify s = ErrorHandler"
    by blast
  with run one out bad good show ?thesis by blast
qed

end
